theory Spec2Isabelle
  imports Complex_Main
begin

text \<open>
  A shallow embedding of the strategy evaluation and auto-trading core of the trading
  dashboard: the server's strategy module (\<open>server/sockets/marketData.js\<close>, whose
  indicator, evaluator, history and route code is also that of its earlier copy without
  order placement), the candle buffer (\<open>src/utils/candleUtils.ts\<close>) and the live
  engine of the client (\<open>src/components/LiveTradingEngine.tsx\<close>). Pure functions are
  HOL functions of the same name; the mutable globals and the React state are records
  passed through; the quote service, the order gateway, the clock and the timers are an
  environment and traces; an exception is a value.
\<close>

section \<open>JavaScript numbers\<close>

text \<open>
  The program computes on JavaScript numbers. A number is modelled as a finite value,
  one of the two infinities, or NaN. Finite values are exact reals: the rounding and the
  overflow of IEEE doubles are not modelled, zero carries no sign, and \<open>Math.sqrt\<close>
  is the real square root. Division by zero, the infinities and NaN follow IEEE 754,
  which is what decides the branches of the program on degenerate input. Since
  arithmetic on finite doubles can overflow to an infinity, no property below rests on
  the result of arithmetic on arbitrary finite prices being finite. The counterexamples
  and examples below use inputs on which doubles give the same values.
  Reading an array out of range gives \<open>undefined\<close> in JavaScript; every such read of
  an array of numbers in the modelled code is used in arithmetic, in a numeric comparison
  or under \<open>||\<close>, where \<open>undefined\<close> behaves as NaN, so the read is modelled as NaN.
\<close>

datatype jsnum = Fin real | PInf | NInf | NaN

fun js_neg :: "jsnum \<Rightarrow> jsnum" where
  "js_neg (Fin a) = Fin (- a)"
| "js_neg PInf = NInf"
| "js_neg NInf = PInf"
| "js_neg NaN = NaN"

fun js_add :: "jsnum \<Rightarrow> jsnum \<Rightarrow> jsnum" where
  "js_add (Fin a) (Fin b) = Fin (a + b)"
| "js_add NaN _ = NaN"
| "js_add _ NaN = NaN"
| "js_add PInf NInf = NaN"
| "js_add NInf PInf = NaN"
| "js_add PInf _ = PInf"
| "js_add _ PInf = PInf"
| "js_add NInf _ = NInf"
| "js_add _ NInf = NInf"

definition js_sub :: "jsnum \<Rightarrow> jsnum \<Rightarrow> jsnum" where
  "js_sub a b = js_add a (js_neg b)"

text \<open>The sign of a number: 1, 0 or -1; NaN has none.\<close>

fun js_sign :: "jsnum \<Rightarrow> int option" where
  "js_sign (Fin a) = Some (if a > 0 then 1 else if a < 0 then - 1 else 0)"
| "js_sign PInf = Some 1"
| "js_sign NInf = Some (- 1)"
| "js_sign NaN = None"

definition inf_of_sign :: "int \<Rightarrow> jsnum" where
  "inf_of_sign s = (if s > 0 then PInf else if s < 0 then NInf else NaN)"

fun js_mul :: "jsnum \<Rightarrow> jsnum \<Rightarrow> jsnum" where
  "js_mul (Fin a) (Fin b) = Fin (a * b)"
| "js_mul a b =
     (case (js_sign a, js_sign b) of
        (Some s, Some t) \<Rightarrow> inf_of_sign (s * t)
      | _ \<Rightarrow> NaN)"

text \<open>
  Division: a finite non-zero value over zero is an infinity of the sign of the dividend
  (the divisor zero counts as positive), zero over zero and infinity over infinity are
  NaN, a finite value over an infinity is zero.
\<close>

fun js_div :: "jsnum \<Rightarrow> jsnum \<Rightarrow> jsnum" where
  "js_div (Fin a) (Fin b) =
     (if b \<noteq> 0 then Fin (a / b)
      else if a > 0 then PInf else if a < 0 then NInf else NaN)"
| "js_div NaN _ = NaN"
| "js_div _ NaN = NaN"
| "js_div (Fin a) _ = Fin 0"
| "js_div PInf (Fin b) = (if b \<ge> 0 then PInf else NInf)"
| "js_div NInf (Fin b) = (if b \<ge> 0 then NInf else PInf)"
| "js_div _ _ = NaN"

text \<open>The comparisons \<open><\<close>, \<open><=\<close>, \<open>>\<close>, \<open>>=\<close>, \<open>===\<close>: all false when a side is NaN.\<close>

fun js_lt :: "jsnum \<Rightarrow> jsnum \<Rightarrow> bool" where
  "js_lt (Fin a) (Fin b) = (a < b)"
| "js_lt NaN _ = False"
| "js_lt _ NaN = False"
| "js_lt _ NInf = False"
| "js_lt PInf _ = False"
| "js_lt _ _ = True"

fun js_eq :: "jsnum \<Rightarrow> jsnum \<Rightarrow> bool" where
  "js_eq NaN _ = False"
| "js_eq _ NaN = False"
| "js_eq a b = (a = b)"

definition js_le :: "jsnum \<Rightarrow> jsnum \<Rightarrow> bool" where
  "js_le a b = (js_lt a b \<or> js_eq a b)"

definition js_gt :: "jsnum \<Rightarrow> jsnum \<Rightarrow> bool" where
  "js_gt a b = js_lt b a"

definition js_ge :: "jsnum \<Rightarrow> jsnum \<Rightarrow> bool" where
  "js_ge a b = js_le b a"

text \<open>\<open>Math.abs\<close>, \<open>Math.max\<close>, \<open>Math.min\<close> of two numbers, \<open>Math.sqrt\<close>, \<open>Math.floor\<close>.\<close>

fun js_abs :: "jsnum \<Rightarrow> jsnum" where
  "js_abs (Fin a) = Fin \<bar>a\<bar>"
| "js_abs NaN = NaN"
| "js_abs _ = PInf"

definition js_max :: "jsnum \<Rightarrow> jsnum \<Rightarrow> jsnum" where
  "js_max a b = (if a = NaN \<or> b = NaN then NaN else if js_lt a b then b else a)"

definition js_min :: "jsnum \<Rightarrow> jsnum \<Rightarrow> jsnum" where
  "js_min a b = (if a = NaN \<or> b = NaN then NaN else if js_lt b a then b else a)"

fun js_sqrt :: "jsnum \<Rightarrow> jsnum" where
  "js_sqrt (Fin a) = (if a < 0 then NaN else Fin (sqrt a))"
| "js_sqrt PInf = PInf"
| "js_sqrt _ = NaN"

fun js_floor :: "jsnum \<Rightarrow> jsnum" where
  "js_floor (Fin a) = Fin (of_int \<lfloor>a\<rfloor>)"
| "js_floor x = x"

text \<open>A number is falsy when it is zero or NaN; \<open>a || b\<close> is \<open>b\<close> exactly then.\<close>

definition truthy :: "jsnum \<Rightarrow> bool" where
  "truthy a = (a \<noteq> Fin 0 \<and> a \<noteq> NaN)"

definition js_or :: "jsnum \<Rightarrow> jsnum \<Rightarrow> jsnum" where
  "js_or a b = (if truthy a then a else b)"

text \<open>\<open>xs[i]\<close> for an integer index: NaN (for \<open>undefined\<close>) out of range.\<close>

definition js_nth :: "jsnum list \<Rightarrow> int \<Rightarrow> jsnum" where
  "js_nth xs i = (if 0 \<le> i \<and> i < int (length xs) then xs ! nat i else NaN)"

text \<open>
  \<open>xs.slice(start, end)\<close> for integer arguments: a negative index counts from the end,
  and both are clamped to the array.
\<close>

definition slice_index :: "nat \<Rightarrow> int \<Rightarrow> nat" where
  "slice_index len i = (if i < 0 then nat (max (int len + i) 0) else min (nat i) len)"

definition js_slice :: "'a list \<Rightarrow> int \<Rightarrow> int \<Rightarrow> 'a list" where
  "js_slice xs start end =
     (let s = slice_index (length xs) start; e = slice_index (length xs) end
      in take (e - s) (drop s xs))"

text \<open>\<open>xs.slice(start)\<close>: to the end of the array.\<close>

definition js_slice_from :: "'a list \<Rightarrow> int \<Rightarrow> 'a list" where
  "js_slice_from xs start = drop (slice_index (length xs) start) xs"

text \<open>\<open>xs.reduce((a, b) => a + b, 0)\<close>.\<close>

definition js_sum :: "jsnum list \<Rightarrow> jsnum" where
  "js_sum xs = foldl js_add (Fin 0) xs"

section \<open>Server: technical analysis (marketData.js)\<close>

datatype action = BUY | SELL | HOLD

record signal =
  action :: action
  confidence :: jsnum

text \<open>
  The strategy parameters. A field that a strategy does not carry is \<open>undefined\<close>.
  The periods that index arrays are non-negative integers or \<open>undefined\<close> (\<open>None\<close>);
  \<open>stdDev\<close> is a number or \<open>undefined\<close>: for these the difference matters, since a
  default parameter takes the place of \<open>undefined\<close> and a loop bound that is NaN runs
  no turn. The other numeric fields are only used in arithmetic and comparisons, which
  coerce \<open>undefined\<close> to NaN, and are numbers with NaN for a missing field;
  \<open>meanReversion\<close> is only tested for truth.
\<close>

record parameters =
  fastPeriod :: jsnum
  slowPeriod :: jsnum
  rsiPeriod :: "nat option"
  oversoldLevel :: jsnum
  overboughtLevel :: jsnum
  shortPeriod :: "nat option"
  longPeriod :: "nat option"
  trendStrength :: jsnum
  period :: "nat option"
  stdDev :: "jsnum option"
  meanReversion :: bool
  quantity :: jsnum
  stopLoss :: jsnum
  takeProfit :: jsnum

text \<open>A period as a number, in a comparison or a sum: NaN when it is \<open>undefined\<close>.\<close>

definition period_number :: "nat option \<Rightarrow> jsnum" where
  "period_number p = (case p of None \<Rightarrow> NaN | Some n \<Rightarrow> Fin (real n))"

fun ema_loop :: "jsnum \<Rightarrow> jsnum \<Rightarrow> jsnum list \<Rightarrow> jsnum list" where
  "ema_loop multiplier ema [] = []"
| "ema_loop multiplier ema (p # ps) =
     (let ema' = js_add (js_mul (js_sub p ema) multiplier) ema
      in ema' # ema_loop multiplier ema' ps)"

definition calculateEMA :: "jsnum list \<Rightarrow> jsnum \<Rightarrow> jsnum list" where
  "calculateEMA prices period' =
     (let multiplier = js_div (Fin 2) (js_add period' (Fin 1));
          ema = js_nth prices 0
      in ema # ema_loop multiplier ema (tl prices))"

definition evaluateEMACrossover :: "jsnum list \<Rightarrow> parameters \<Rightarrow> signal" where
  "evaluateEMACrossover prices params =
     (if js_lt (Fin (real (length prices))) (slowPeriod params)
      then \<lparr>action = HOLD, confidence = Fin 0\<rparr>
      else
        let fastEMA = calculateEMA prices (fastPeriod params);
            slowEMA = calculateEMA prices (slowPeriod params);
            currentFast = js_nth fastEMA (int (length fastEMA) - 1);
            currentSlow = js_nth slowEMA (int (length slowEMA) - 1);
            prevFast = js_nth fastEMA (int (length fastEMA) - 2);
            prevSlow = js_nth slowEMA (int (length slowEMA) - 2)
        in if js_le prevFast prevSlow \<and> js_gt currentFast currentSlow
           then \<lparr>action = BUY, confidence = Fin 85\<rparr>
           else if js_ge prevFast prevSlow \<and> js_lt currentFast currentSlow
           then \<lparr>action = SELL, confidence = Fin 85\<rparr>
           else \<lparr>action = HOLD, confidence = Fin 0\<rparr>)"

text \<open>
  \<open>calculateSMA\<close>: the loop variable runs from \<open>period - 1\<close> (which is \<open>-1\<close> for
  period 0) to the last index. With no period the loop variable starts as NaN, the test
  \<open>i < prices.length\<close> fails at once and the result is empty.
\<close>

definition calculateSMA :: "jsnum list \<Rightarrow> nat option \<Rightarrow> jsnum list" where
  "calculateSMA prices period' =
     (case period' of
        None \<Rightarrow> []
      | Some n \<Rightarrow>
          map (\<lambda>i. js_div (js_sum (js_slice prices (i - int n + 1) (i + 1))) (Fin (real n)))
              [int n - 1 .. int (length prices) - 1])"

text \<open>The price changes \<open>prices[i] - prices[i - 1]\<close> for \<open>i\<close> from 1.\<close>

definition changes :: "jsnum list \<Rightarrow> jsnum list" where
  "changes prices = map (\<lambda>(prev, cur). js_sub cur prev) (zip prices (tl prices))"

text \<open>\<open>calculateRSI(prices, period = 14)\<close>: without a period it is 14.\<close>

definition calculateRSI :: "jsnum list \<Rightarrow> nat option \<Rightarrow> jsnum" where
  "calculateRSI prices period' =
     (let n = (case period' of None \<Rightarrow> 14 | Some m \<Rightarrow> m);
          gains = map (\<lambda>change. if js_gt change (Fin 0) then change else Fin 0)
                      (changes prices);
          losses = map (\<lambda>change. if js_lt change (Fin 0) then js_abs change else Fin 0)
                       (changes prices);
          avgGain = js_div (js_sum (js_slice gains 0 (int n))) (Fin (real n));
          avgLoss = js_div (js_sum (js_slice losses 0 (int n))) (Fin (real n));
          rs = js_div avgGain avgLoss
      in js_sub (Fin 100) (js_div (Fin 100) (js_add (Fin 1) rs)))"

record band =
  upper :: jsnum
  middle :: jsnum
  lower :: jsnum

text \<open>
  \<open>calculateBollingerBands(prices, period = 20, stdDev = 2)\<close>: without a period it is
  20, without a \<open>stdDev\<close> it is 2.
\<close>

definition calculateBollingerBands :: "jsnum list \<Rightarrow> nat option \<Rightarrow> jsnum option
    \<Rightarrow> band list" where
  "calculateBollingerBands prices period' stdDev' =
     (let n = (case period' of None \<Rightarrow> 20 | Some m \<Rightarrow> m);
          sd = (case stdDev' of None \<Rightarrow> Fin 2 | Some d \<Rightarrow> d);
          sma = calculateSMA prices (Some n)
      in map (\<lambda>i.
           let slice = js_slice prices (int i) (int i + int n);
               mean = sma ! i;
               variance =
                 js_div (foldl (\<lambda>sum price. js_add sum
                                   (js_mul (js_sub price mean) (js_sub price mean)))
                               (Fin 0) slice)
                        (Fin (real n));
               standardDeviation = js_sqrt variance
           in \<lparr>upper = js_add mean (js_mul sd standardDeviation),
               middle = mean,
               lower = js_sub mean (js_mul sd standardDeviation)\<rparr>)
         [0 ..< length sma])"

definition evaluateRSIOversold :: "jsnum list \<Rightarrow> parameters \<Rightarrow> signal" where
  "evaluateRSIOversold prices params =
     (if js_lt (Fin (real (length prices)))
               (js_add (period_number (rsiPeriod params)) (Fin 1))
      then \<lparr>action = HOLD, confidence = Fin 0\<rparr>
      else
        let rsi = calculateRSI prices (rsiPeriod params)
        in if js_le rsi (oversoldLevel params)
           then \<lparr>action = BUY, confidence = js_max (Fin 60) (js_sub (Fin 100) rsi)\<rparr>
           else if js_ge rsi (overboughtLevel params)
           then \<lparr>action = SELL, confidence = js_max (Fin 60) (js_sub rsi (Fin 50))\<rparr>
           else \<lparr>action = HOLD, confidence = Fin 0\<rparr>)"

definition evaluateSMATrend :: "jsnum list \<Rightarrow> parameters \<Rightarrow> signal" where
  "evaluateSMATrend prices params =
     (if js_lt (Fin (real (length prices))) (period_number (longPeriod params))
      then \<lparr>action = HOLD, confidence = Fin 0\<rparr>
      else
        let shortSMA = calculateSMA prices (shortPeriod params);
            longSMA = calculateSMA prices (longPeriod params);
            currentShort = js_nth shortSMA (int (length shortSMA) - 1);
            currentLong = js_nth longSMA (int (length longSMA) - 1);
            currentPrice = js_nth prices (int (length prices) - 1);
            strength = js_div (js_abs (js_sub currentShort currentLong)) currentPrice
        in if js_gt currentShort currentLong
              \<and> js_gt strength (js_div (trendStrength params) (Fin 100))
           then \<lparr>action = BUY,
                 confidence = js_min (Fin 90) (js_add (Fin 60) (js_mul strength (Fin 1000)))\<rparr>
           else if js_lt currentShort currentLong
              \<and> js_gt strength (js_div (trendStrength params) (Fin 100))
           then \<lparr>action = SELL,
                 confidence = js_min (Fin 90) (js_add (Fin 60) (js_mul strength (Fin 1000)))\<rparr>
           else \<lparr>action = HOLD, confidence = Fin 0\<rparr>)"

text \<open>
  The exceptions the modelled code can raise. \<open>evaluateBollingerBands\<close> reads
  \<open>currentBand.lower\<close> or \<open>currentBand.upper\<close> of the last band, in either
  branch: on an empty band list that is a property of \<open>undefined\<close>, a TypeError. The
  band list is empty when the parameters carry no period and the prices are fewer than
  the default 20: the guard compares with \<open>undefined\<close> and lets them through.
\<close>

datatype js_error = TypeError

definition evaluateBollingerBands :: "jsnum list \<Rightarrow> parameters \<Rightarrow> js_error + signal" where
  "evaluateBollingerBands prices params =
     (if js_lt (Fin (real (length prices))) (period_number (period params))
      then Inr \<lparr>action = HOLD, confidence = Fin 0\<rparr>
      else
        let bands = calculateBollingerBands prices (period params) (stdDev params);
            currentPrice = js_nth prices (int (length prices) - 1)
        in if bands = [] then Inl TypeError
           else
             let currentBand = last bands
             in if meanReversion params
                then (if js_le currentPrice (lower currentBand)
                      then Inr \<lparr>action = BUY, confidence = Fin 80\<rparr>
                      else if js_ge currentPrice (upper currentBand)
                      then Inr \<lparr>action = SELL, confidence = Fin 80\<rparr>
                      else Inr \<lparr>action = HOLD, confidence = Fin 0\<rparr>)
                else (if js_gt currentPrice (upper currentBand)
                      then Inr \<lparr>action = BUY, confidence = Fin 75\<rparr>
                      else if js_lt currentPrice (lower currentBand)
                      then Inr \<lparr>action = SELL, confidence = Fin 75\<rparr>
                      else Inr \<lparr>action = HOLD, confidence = Fin 0\<rparr>))"

section \<open>Server: strategies, state and environment (marketData.js)\<close>

text \<open>
  A value that may be \<open>undefined\<close>: a quoted price is a number or missing. Arithmetic
  and comparisons coerce \<open>undefined\<close> to NaN (\<open>to_number\<close>); a method call on it
  (\<open>price.toFixed(2)\<close>) raises a TypeError.
\<close>

type_synonym jsval = "jsnum option"

definition to_number :: "jsval \<Rightarrow> jsnum" where
  "to_number v = (case v of None \<Rightarrow> NaN | Some n \<Rightarrow> n)"

datatype strategy_type = ema_crossover | rsi_oversold | sma_trend | bollinger_bands

record performance =
  totalTrades :: jsnum
  winRate :: jsnum
  totalPnL :: jsnum
  maxDrawdown :: jsnum
  sharpeRatio :: jsnum

record timed_signal = signal +
  timestamp :: nat
  price :: jsval

record strategy =
  id' :: string
  name :: string
  type :: strategy_type
  symbol :: string
  enabled :: bool
  parameters :: parameters
  performance :: performance
  lastSignal :: "timed_signal option"

text \<open>What \<open>yahooFinance.quote\<close> answers, and the record \<open>fetchMarketData\<close> makes of it.\<close>

record quote =
  regularMarketPrice :: jsval
  regularMarketOpen :: jsval
  regularMarketDayHigh :: jsval
  regularMarketDayLow :: jsval
  regularMarketVolume :: jsval
  regularMarketChange :: jsval
  regularMarketChangePercent :: jsval

record market_data =
  price :: jsval
  "open" :: jsval
  high :: jsval
  low :: jsval
  volume :: jsval
  change :: jsval
  changePercent :: jsval
  timestamp :: nat

datatype order_kind = LIMIT | MARKET | SL

record order =
  trading_symbol :: string
  instrument_token :: string
  quantity :: jsnum
  price :: jsnum
  order_type :: order_kind
  transaction_type :: action
  product :: string
  validity :: string
  disclosed_quantity :: "jsnum option"
  trigger_price :: "jsnum option"
  is_amo :: "bool option"
  slice :: "bool option"
  tag :: string

text \<open>
  The answer of the order gateway (\<open>placeOrderDirect\<close>): the order id on success, the
  error text, when there is one, on failure. It never raises.
\<close>

datatype response = Success string | Failure "string option"

datatype trade_result = Executed string | Failed string

text \<open>
  The lines written to \<open>systemStatus.logs\<close> and to the error console, by kind and with
  the data they render; the clock time at the head of a line and the number formatting
  are left out.
\<close>

datatype log_entry =
    SignalLog string action jsnum jsnum
  | TradeExecuted action jsnum string jsnum string
  | TradeFailed string string
  | StrategyError string js_error
  | RiskOrdersPlaced string jsnum jsnum
  | StrategyUpdated string
  | AutoTradingLog bool
  | FetchFailed string

text \<open>
  A pending \<open>setTimeout\<close>: the delay in milliseconds and the call it will make,
  \<open>scheduleStopLossAndTakeProfit(strategy, signal, parentOrderId)\<close>. The strategy object
  the closure holds is named by its key in the registry.
\<close>

record timer =
  delay :: nat
  strategyKey :: string
  entrySignal :: timed_signal
  parentOrderId :: string

datatype run_status = stopped | running

text \<open>
  The state of the server process: the three global maps and \<open>systemStatus\<close>, together
  with the traces of its effects on the outside: the symbols whose quote was requested,
  the orders sent to the gateway, the pending timers and the error console. The registry
  is a JavaScript Map, kept here in insertion order with distinct keys.
\<close>

record server_state =
  strategies :: "(string \<times> strategy) list"
  status :: run_status
  autoTradingEnabled :: bool
  logs :: "log_entry list"
  marketDataCache :: "string \<rightharpoonup> market_data"
  priceHistory :: "string \<rightharpoonup> jsval list"
  fetched :: "string list"
  placed :: "order list"
  timers :: "timer list"
  console :: "log_entry list"

text \<open>
  The environment: the quote service and the order gateway answer as functions of the
  number of calls made before (a quote that fails is \<open>None\<close>), and \<open>now\<close> is the clock.
\<close>

record env =
  yahooQuote :: "nat \<Rightarrow> string \<Rightarrow> quote option"
  placeOrderDirect :: "nat \<Rightarrow> order \<Rightarrow> response"
  now :: nat

definition fetchMarketData :: "env \<Rightarrow> server_state \<Rightarrow> string
    \<Rightarrow> market_data option \<times> server_state" where
  "fetchMarketData e st symb =
     (let st' = st\<lparr>fetched := fetched st @ [symb]\<rparr>
      in case yahooQuote e (length (fetched st)) symb of
           Some q \<Rightarrow>
             (Some \<lparr>market_data.price = regularMarketPrice q,
                    open = regularMarketOpen q,
                    high = regularMarketDayHigh q,
                    low = regularMarketDayLow q,
                    volume = regularMarketVolume q,
                    change = regularMarketChange q,
                    changePercent = regularMarketChangePercent q,
                    market_data.timestamp = now e\<rparr>, st')
         | None \<Rightarrow> (None, st'\<lparr>console := console st' @ [FetchFailed symb]\<rparr>))"

definition addToHistory :: "server_state \<Rightarrow> string \<Rightarrow> jsval \<Rightarrow> server_state" where
  "addToHistory st symb p =
     (let history = (case priceHistory st symb of None \<Rightarrow> [] | Some h \<Rightarrow> h) @ [p]
      in st\<lparr>priceHistory := (priceHistory st)
             (symb \<mapsto> (if length history > 200 then tl history else history))\<rparr>)"

definition evaluateStrategy :: "env \<Rightarrow> server_state \<Rightarrow> strategy
    \<Rightarrow> js_error + timed_signal option" where
  "evaluateStrategy e st strat =
     (case priceHistory st (symbol strat) of
        None \<Rightarrow> Inr None
      | Some history \<Rightarrow>
          if length history < 20 then Inr None
          else
            let prices = map to_number history;
                result =
                  (case type strat of
                     ema_crossover \<Rightarrow> Inr (evaluateEMACrossover prices (parameters strat))
                   | rsi_oversold \<Rightarrow> Inr (evaluateRSIOversold prices (parameters strat))
                   | sma_trend \<Rightarrow> Inr (evaluateSMATrend prices (parameters strat))
                   | bollinger_bands \<Rightarrow> evaluateBollingerBands prices (parameters strat))
            in (case result of
                 Inl err \<Rightarrow> Inl err
               | Inr sig \<Rightarrow>
                   if action sig \<noteq> HOLD
                   then Inr (Some \<lparr>action = action sig, confidence = confidence sig,
                                   timed_signal.timestamp = now e,
                                   timed_signal.price = last history\<rparr>)
                   else Inr None))"

section \<open>Server: order execution (marketData.js)\<close>

text \<open>\<open>s.replace(pat, rep)\<close> with a string pattern: the first occurrence only.\<close>

fun replace_first :: "string \<Rightarrow> string \<Rightarrow> string \<Rightarrow> string" where
  "replace_first pat rep [] = (if pat = [] then rep else [])"
| "replace_first pat rep (c # cs) =
     (if take (length pat) (c # cs) = pat then rep @ drop (length pat) (c # cs)
      else c # replace_first pat rep cs)"

text \<open>
  The two symbol tables. A symbol is looked up as a key of an object literal; a symbol
  that names a property every object inherits (such as \<open>constructor\<close>) would find
  that property instead of falling through, and is not modelled.
\<close>

definition getInstrumentToken :: "string \<Rightarrow> string" where
  "getInstrumentToken yahooSymbol =
     (case map_of
        [(''^NSEI'', ''NSE_INDEX|Nifty 50''),
         (''^NSEBANK'', ''NSE_INDEX|Nifty Bank''),
         (''RELIANCE.NS'', ''NSE_EQ|INE002A01018''),
         (''TCS.NS'', ''NSE_EQ|INE467B01029''),
         (''INFY.NS'', ''NSE_EQ|INE009A01021''),
         (''HDFCBANK.NS'', ''NSE_EQ|INE040A01034''),
         (''ICICIBANK.NS'', ''NSE_EQ|INE090A01013'')] yahooSymbol of
        Some token \<Rightarrow> token
      | None \<Rightarrow> ''NSE_EQ|'' @ replace_first ''.NS'' [] yahooSymbol)"

definition getTradingSymbol :: "string \<Rightarrow> string" where
  "getTradingSymbol yahooSymbol =
     (case map_of
        [(''^NSEI'', ''NIFTY''),
         (''^NSEBANK'', ''BANKNIFTY''),
         (''RELIANCE.NS'', ''RELIANCE''),
         (''TCS.NS'', ''TCS''),
         (''INFY.NS'', ''INFY''),
         (''HDFCBANK.NS'', ''HDFCBANK''),
         (''ICICIBANK.NS'', ''ICICIBANK'')] yahooSymbol of
        Some s \<Rightarrow> s
      | None \<Rightarrow> replace_first ''.NS'' [] yahooSymbol)"

text \<open>The decimal digits of a clock value, as a template string renders it.\<close>

fun show_nat :: "nat \<Rightarrow> string" where
  "show_nat n =
     (if n < 10 then [char_of (48 + n)]
      else show_nat (n div 10) @ [char_of (48 + n mod 10)])"

fun type_name :: "strategy_type \<Rightarrow> string" where
  "type_name ema_crossover = ''ema_crossover''"
| "type_name rsi_oversold = ''rsi_oversold''"
| "type_name sma_trend = ''sma_trend''"
| "type_name bollinger_bands = ''bollinger_bands''"

text \<open>
  \<open>executeRealTrade\<close>. Its body is one \<open>try\<close>: an undefined price makes the first
  \<open>toFixed\<close> raise, which the \<open>catch\<close> turns into a failed result before any order is
  built; the error text is the message of the TypeError, here in the wording of Node.
  Otherwise the order goes to the gateway, and on success the stop-loss and take-profit
  call is put on a timer of 5000 milliseconds.
\<close>

definition toFixed_message :: string where
  "toFixed_message = ''Cannot read properties of undefined (reading 'toFixed')''"

definition entryOrder :: "env \<Rightarrow> strategy \<Rightarrow> timed_signal \<Rightarrow> jsnum \<Rightarrow> order" where
  "entryOrder e strat sig p =
     \<lparr>trading_symbol = getTradingSymbol (symbol strat),
      instrument_token = getInstrumentToken (symbol strat),
      quantity = parameters.quantity (parameters strat),
      order.price = p,
      order_type = LIMIT,
      transaction_type = action sig,
      product = ''MIS'',
      validity = ''DAY'',
      disclosed_quantity = Some (Fin 0),
      trigger_price = Some (Fin 0),
      is_amo = Some False,
      slice = Some True,
      tag = ''algo_'' @ type_name (type strat) @ ''_'' @ show_nat (now e)\<rparr>"

definition executeRealTrade :: "env \<Rightarrow> server_state \<Rightarrow> string \<Rightarrow> strategy \<Rightarrow> timed_signal
    \<Rightarrow> trade_result \<times> server_state" where
  "executeRealTrade e st key strat sig =
     (case timed_signal.price sig of
        None \<Rightarrow> (Failed toFixed_message, st)
      | Some p \<Rightarrow>
          let orderData = entryOrder e strat sig p;
              resp = placeOrderDirect e (length (placed st)) orderData;
              st1 = st\<lparr>placed := placed st @ [orderData]\<rparr>
          in (case resp of
               Success order_id \<Rightarrow>
                 (Executed order_id,
                  st1\<lparr>timers := timers st1 @
                     [\<lparr>delay = 5000, strategyKey = key, entrySignal = sig,
                       parentOrderId = order_id\<rparr>]\<rparr>)
             | Failure err \<Rightarrow>
                 (Failed (case err of None \<Rightarrow> ''Unknown error''
                          | Some m \<Rightarrow> if m = [] then ''Unknown error'' else m),
                  st1)))"

text \<open>
  \<open>scheduleStopLossAndTakeProfit\<close>: the two prices, the two derived orders built from
  them, and the two orders sent one after the other. Nothing in its \<open>try\<close> can raise
  on a strategy record, and the gateway does not raise.
\<close>

definition stopLossPrice :: "strategy \<Rightarrow> timed_signal \<Rightarrow> jsnum" where
  "stopLossPrice strat sig =
     (let stopLoss' = stopLoss (parameters strat);
          currentPrice = to_number (timed_signal.price sig)
      in if action sig = BUY
         then js_mul currentPrice (js_sub (Fin 1) (js_div stopLoss' (Fin 100)))
         else js_mul currentPrice (js_add (Fin 1) (js_div stopLoss' (Fin 100))))"

definition takeProfitPrice :: "strategy \<Rightarrow> timed_signal \<Rightarrow> jsnum" where
  "takeProfitPrice strat sig =
     (let takeProfit' = takeProfit (parameters strat);
          currentPrice = to_number (timed_signal.price sig)
      in if action sig = BUY
         then js_mul currentPrice (js_add (Fin 1) (js_div takeProfit' (Fin 100)))
         else js_mul currentPrice (js_sub (Fin 1) (js_div takeProfit' (Fin 100))))"

definition stopLossOrder :: "strategy \<Rightarrow> timed_signal \<Rightarrow> string \<Rightarrow> order" where
  "stopLossOrder strat sig parentId =
     \<lparr>trading_symbol = getTradingSymbol (symbol strat),
      instrument_token = getInstrumentToken (symbol strat),
      quantity = parameters.quantity (parameters strat),
      order.price = stopLossPrice strat sig,
      order_type = SL,
      transaction_type = (if action sig = BUY then SELL else BUY),
      product = ''MIS'',
      validity = ''DAY'',
      disclosed_quantity = None,
      trigger_price = Some (stopLossPrice strat sig),
      is_amo = None,
      slice = None,
      tag = ''sl_'' @ parentId\<rparr>"

definition takeProfitOrder :: "strategy \<Rightarrow> timed_signal \<Rightarrow> string \<Rightarrow> order" where
  "takeProfitOrder strat sig parentId =
     \<lparr>trading_symbol = getTradingSymbol (symbol strat),
      instrument_token = getInstrumentToken (symbol strat),
      quantity = parameters.quantity (parameters strat),
      order.price = takeProfitPrice strat sig,
      order_type = LIMIT,
      transaction_type = (if action sig = BUY then SELL else BUY),
      product = ''MIS'',
      validity = ''DAY'',
      disclosed_quantity = None,
      trigger_price = None,
      is_amo = None,
      slice = None,
      tag = ''tp_'' @ parentId\<rparr>"

definition scheduleStopLossAndTakeProfit :: "env \<Rightarrow> server_state \<Rightarrow> strategy \<Rightarrow> timed_signal
    \<Rightarrow> string \<Rightarrow> server_state" where
  "scheduleStopLossAndTakeProfit e st strat sig parentId =
     (let slResult = placeOrderDirect e (length (placed st)) (stopLossOrder strat sig parentId);
          st1 = st\<lparr>placed := placed st @ [stopLossOrder strat sig parentId]\<rparr>;
          tpResult = placeOrderDirect e (length (placed st1))
                       (takeProfitOrder strat sig parentId);
          st2 = st1\<lparr>placed := placed st1 @ [takeProfitOrder strat sig parentId]\<rparr>
      in st2\<lparr>logs := logs st2 @
            [RiskOrdersPlaced (name strat) (stopLossPrice strat sig)
               (takeProfitPrice strat sig)]\<rparr>)"

text \<open>
  A timer that fires: it is taken off the queue and makes its call on the strategy object
  it holds, as that object is then.
\<close>

definition fireTimer :: "env \<Rightarrow> server_state \<Rightarrow> server_state" where
  "fireTimer e st =
     (case timers st of
        [] \<Rightarrow> st
      | t # ts \<Rightarrow>
          (case map_of (strategies st) (strategyKey t) of
             None \<Rightarrow> st\<lparr>timers := ts\<rparr>
           | Some strat \<Rightarrow>
               scheduleStopLossAndTakeProfit e (st\<lparr>timers := ts\<rparr>) strat
                 (entrySignal t) (parentOrderId t)))"

section \<open>Server: the auto-trading cycle and the routes (marketData.js)\<close>

text \<open>A mutation of the strategy object stored under a key of the registry.\<close>

definition modifyStrategy :: "server_state \<Rightarrow> string \<Rightarrow> (strategy \<Rightarrow> strategy)
    \<Rightarrow> server_state" where
  "modifyStrategy st key f =
     st\<lparr>strategies := map (\<lambda>(k, s). if k = key then (k, f s) else (k, s)) (strategies st)\<rparr>"

text \<open>
  The body of the \<open>try\<close> in the loop of \<open>executeAutoTrading\<close>, once the quote is
  there, in three steps: the quoted price goes to the history and the quote to the cache
  (\<open>afterQuote\<close>); the strategy is evaluated there; a signal with confidence at least
  70 is acted on (\<open>actOnSignal\<close>). Each step gives the state it leaves, and the
  exception when it raises one. The signal line is the one log line that is followed by
  the trim to 100 entries.
\<close>

definition afterQuote :: "server_state \<Rightarrow> strategy \<Rightarrow> market_data \<Rightarrow> server_state" where
  "afterQuote st strat marketData =
     (let st1 = addToHistory st (symbol strat) (market_data.price marketData)
      in st1\<lparr>marketDataCache := (marketDataCache st1)(symbol strat \<mapsto> marketData)\<rparr>)"

definition actOnSignal :: "env \<Rightarrow> server_state \<Rightarrow> string \<Rightarrow> strategy \<Rightarrow> timed_signal
    \<Rightarrow> js_error option \<times> server_state" where
  "actOnSignal e st key strat sig =
     (let st3 = modifyStrategy st key (\<lambda>s. s\<lparr>lastSignal := Some sig\<rparr>)
      in case timed_signal.price sig of
           None \<Rightarrow> (Some TypeError, st3)
         | Some p \<Rightarrow>
             let pushed = logs st3 @
                   [SignalLog (name strat) (action sig) p (confidence sig)];
                 st4 = st3\<lparr>logs := (if length pushed > 100 then tl pushed else pushed)\<rparr>;
                 (tradeResult, st5) = executeRealTrade e st4 key strat sig
             in (case tradeResult of
                   Executed order_id \<Rightarrow>
                     (None,
                      modifyStrategy
                        (st5\<lparr>logs := logs st5 @
                           [TradeExecuted (action sig)
                              (parameters.quantity (parameters strat))
                              (symbol strat) p order_id]\<rparr>)
                        key
                        (\<lambda>s. s\<lparr>performance := (performance s)
                           \<lparr>totalTrades :=
                              js_add (totalTrades (performance s)) (Fin 1)\<rparr>\<rparr>))
                 | Failed err \<Rightarrow>
                     (None, st5\<lparr>logs := logs st5 @ [TradeFailed (name strat) err]\<rparr>)))"

definition strategyBody :: "env \<Rightarrow> server_state \<Rightarrow> string \<Rightarrow> strategy \<Rightarrow> market_data
    \<Rightarrow> js_error option \<times> server_state" where
  "strategyBody e st key strat marketData =
     (let st2 = afterQuote st strat marketData
      in case evaluateStrategy e st2 strat of
           Inl err \<Rightarrow> (Some err, st2)
         | Inr None \<Rightarrow> (None, st2)
         | Inr (Some sig) \<Rightarrow>
             if js_ge (confidence sig) (Fin 70) then actOnSignal e st2 key strat sig
             else (None, st2))"

text \<open>
  One turn of the loop for the strategy object under a key: the quote, \<open>continue\<close> when
  there is none, else the body under its \<open>catch\<close>, which writes the error to the
  console and to the logs.
\<close>

definition processStrategy :: "env \<Rightarrow> server_state \<Rightarrow> string \<Rightarrow> server_state" where
  "processStrategy e st key =
     (case map_of (strategies st) key of
        None \<Rightarrow> st
      | Some strat \<Rightarrow>
          (case fetchMarketData e st (symbol strat) of
             (None, st0) \<Rightarrow> st0
           | (Some marketData, st0) \<Rightarrow>
               (case strategyBody e st0 key strat marketData of
                  (None, st1) \<Rightarrow> st1
                | (Some err, st1) \<Rightarrow>
                    st1\<lparr>console := console st1 @ [StrategyError (name strat) err],
                        logs := logs st1 @ [StrategyError (name strat) err]\<rparr>)))"

definition activeStrategies :: "server_state \<Rightarrow> string list" where
  "activeStrategies st = map fst (filter (\<lambda>(k, s). enabled s) (strategies st))"

definition executeAutoTrading :: "env \<Rightarrow> server_state \<Rightarrow> server_state" where
  "executeAutoTrading e st =
     (if \<not> autoTradingEnabled st then st
      else foldl (processStrategy e) st (activeStrategies st))"

text \<open>
  The body of \<open>PUT /:strategyId\<close>, a partial strategy: each field is there or not, and
  \<open>Object.assign\<close> writes the fields that are there.
\<close>

record strategy_updates =
  upd_id :: "string option"
  upd_name :: "string option"
  upd_type :: "strategy_type option"
  upd_symbol :: "string option"
  upd_enabled :: "bool option"
  upd_parameters :: "parameters option"
  upd_performance :: "performance option"
  upd_lastSignal :: "timed_signal option"

definition assign :: "strategy \<Rightarrow> strategy_updates \<Rightarrow> strategy" where
  "assign s u =
     \<lparr>id' = (case upd_id u of Some v \<Rightarrow> v | None \<Rightarrow> id' s),
      name = (case upd_name u of Some v \<Rightarrow> v | None \<Rightarrow> name s),
      type = (case upd_type u of Some v \<Rightarrow> v | None \<Rightarrow> type s),
      symbol = (case upd_symbol u of Some v \<Rightarrow> v | None \<Rightarrow> symbol s),
      enabled = (case upd_enabled u of Some v \<Rightarrow> v | None \<Rightarrow> enabled s),
      parameters = (case upd_parameters u of Some v \<Rightarrow> v | None \<Rightarrow> parameters s),
      performance = (case upd_performance u of Some v \<Rightarrow> v | None \<Rightarrow> performance s),
      lastSignal = (case upd_lastSignal u of Some v \<Rightarrow> Some v | None \<Rightarrow> lastSignal s)\<rparr>"

text \<open>
  \<open>router.put('/:strategyId')\<close>: the updated strategy with the new state, or \<open>None\<close>
  for the 404 answer.
\<close>

definition putStrategy :: "server_state \<Rightarrow> string \<Rightarrow> strategy_updates
    \<Rightarrow> strategy option \<times> server_state" where
  "putStrategy st strategyId updates =
     (case map_of (strategies st) strategyId of
        Some strat \<Rightarrow>
          let strat' = assign strat updates;
              st1 = modifyStrategy st strategyId (\<lambda>s. assign s updates)
          in (Some strat', st1\<lparr>logs := logs st1 @ [StrategyUpdated (name strat')]\<rparr>)
      | None \<Rightarrow> (None, st))"

text \<open>\<open>router.post('/system/auto-trading')\<close>.\<close>

definition postAutoTrading :: "server_state \<Rightarrow> bool \<Rightarrow> server_state" where
  "postAutoTrading st en =
     st\<lparr>autoTradingEnabled := en,
        status := (if en then running else stopped),
        logs := logs st @ [AutoTradingLog en]\<rparr>"

text \<open>
  \<open>initializeStrategies\<close>: the four default strategies and the state at start-up. A
  parameter that a strategy does not carry is \<open>undefined\<close>.
\<close>

definition noParameters :: parameters where
  "noParameters =
     \<lparr>fastPeriod = NaN, slowPeriod = NaN, rsiPeriod = None, oversoldLevel = NaN,
      overboughtLevel = NaN, shortPeriod = None, longPeriod = None, trendStrength = NaN,
      period = None, stdDev = None, meanReversion = False, quantity = NaN, stopLoss = NaN,
      takeProfit = NaN\<rparr>"

definition noPerformance :: performance where
  "noPerformance =
     \<lparr>totalTrades = Fin 0, winRate = Fin 0, totalPnL = Fin 0, maxDrawdown = Fin 0,
      sharpeRatio = Fin 0\<rparr>"

definition defaultStrategies :: "strategy list" where
  "defaultStrategies =
     [\<lparr>id' = ''ema_crossover_1'', name = ''EMA Crossover NIFTY'', type = ema_crossover,
       symbol = ''NIFTY.NS'', enabled = False,
       parameters = noParameters\<lparr>fastPeriod := Fin 9, slowPeriod := Fin 21,
         parameters.quantity := Fin 25, stopLoss := Fin 2, takeProfit := Fin 4\<rparr>,
       performance = noPerformance, lastSignal = None\<rparr>,
      \<lparr>id' = ''rsi_oversold_1'', name = ''RSI Oversold BANKNIFTY'', type = rsi_oversold,
       symbol = ''BANKNIFTY.NS'', enabled = False,
       parameters = noParameters\<lparr>rsiPeriod := Some 14, oversoldLevel := Fin 30,
         overboughtLevel := Fin 70, parameters.quantity := Fin 15, stopLoss := Fin (3 / 2),
         takeProfit := Fin 3\<rparr>,
       performance = noPerformance, lastSignal = None\<rparr>,
      \<lparr>id' = ''sma_trend_1'', name = ''SMA Trend RELIANCE'', type = sma_trend,
       symbol = ''RELIANCE.NS'', enabled = False,
       parameters = noParameters\<lparr>shortPeriod := Some 20, longPeriod := Some 50,
         trendStrength := Fin (12 / 10), parameters.quantity := Fin 10,
         stopLoss := Fin (5 / 2), takeProfit := Fin 5\<rparr>,
       performance = noPerformance, lastSignal = None\<rparr>,
      \<lparr>id' = ''bollinger_bands_1'', name = ''Bollinger Bands TCS'', type = bollinger_bands,
       symbol = ''TCS.NS'', enabled = False,
       parameters = noParameters\<lparr>period := Some 20, stdDev := Some (Fin 2),
         parameters.quantity := Fin 5, stopLoss := Fin (18 / 10), takeProfit := Fin (7 / 2),
         meanReversion := True\<rparr>,
       performance = noPerformance, lastSignal = None\<rparr>]"

definition initialState :: server_state where
  "initialState =
     \<lparr>strategies = map (\<lambda>s. (id' s, s)) defaultStrategies,
      status = stopped, autoTradingEnabled = False, logs = [],
      marketDataCache = Map.empty, priceHistory = Map.empty,
      fetched = [], placed = [], timers = [], console = []\<rparr>"

section \<open>Candles (candleUtils.ts)\<close>

record candle =
  time :: jsnum
  "open" :: jsnum
  high :: jsnum
  low :: jsnum
  close :: jsnum

text \<open>
  \<open>addOrUpdateCandle\<close>: a tick whose aligned time differs from that of the last candle
  (\<open>!==\<close>, so also when either is NaN), or that finds no candle, starts a new candle and
  keeps the last 60; otherwise it updates the last candle.
\<close>

definition alignedTime :: "jsnum \<Rightarrow> jsnum \<Rightarrow> jsnum" where
  "alignedTime ts intervalSec = js_mul (js_floor (js_div ts intervalSec)) intervalSec"

definition addOrUpdateCandle :: "candle list \<Rightarrow> jsnum \<Rightarrow> jsnum \<Rightarrow> jsnum \<Rightarrow> candle list" where
  "addOrUpdateCandle candles p ts intervalSec =
     (let candleTime = alignedTime ts intervalSec
      in if candles = [] \<or> \<not> js_eq (candle.time (last candles)) candleTime
         then js_slice_from
                (candles @ [\<lparr>time = candleTime, open = p, high = p, low = p, close = p\<rparr>])
                (- 60)
         else js_slice candles 0 (- 1) @
                [(last candles)\<lparr>high := js_max (candle.high (last candles)) p,
                                low := js_min (candle.low (last candles)) p,
                                close := p\<rparr>])"

section \<open>Live engine: indicators (LiveTradingEngine.tsx)\<close>

record technical_indicators =
  rsi :: jsnum
  sma20 :: jsnum
  sma50 :: jsnum
  ema9 :: jsnum
  ema21 :: jsnum
  macd :: jsnum
  macdSignal :: jsnum
  bollingerUpper :: jsnum
  bollingerLower :: jsnum
  stochasticK :: jsnum
  stochasticD :: jsnum
  atr :: jsnum
  volumeRatio :: jsnum

text \<open>
  The component has its own \<open>calculateRSI\<close> and \<open>calculateEMA\<close>, named here with the
  prefix \<open>live_\<close> to tell them from the server's.
\<close>

definition live_calculateRSI :: "jsnum list \<Rightarrow> jsnum" where
  "live_calculateRSI prices =
     (if length prices < 2 then Fin 50
      else
        let (gains, losses) =
              foldl (\<lambda>(g, l) change.
                       if js_gt change (Fin 0) then (js_add g change, l)
                       else (g, js_add l (js_abs change)))
                    (Fin 0, Fin 0) (changes prices);
            avgGain = js_div gains (Fin (real (length prices) - 1));
            avgLoss = js_div losses (Fin (real (length prices) - 1));
            rs = js_div avgGain (js_or avgLoss (Fin 1))
        in js_sub (Fin 100) (js_div (Fin 100) (js_add (Fin 1) rs)))"

definition live_calculateEMA :: "jsnum list \<Rightarrow> jsnum \<Rightarrow> jsnum" where
  "live_calculateEMA prices period' =
     (if length prices = 0 then Fin 0
      else if length prices = 1 then hd prices
      else
        let multiplier = js_div (Fin 2) (js_add period' (Fin 1))
        in foldl (\<lambda>ema p. js_add (js_mul (js_sub p ema) multiplier) ema)
                 (hd prices) (tl prices))"

definition calculateStandardDeviation :: "jsnum list \<Rightarrow> jsnum" where
  "calculateStandardDeviation prices =
     (let mean = js_div (js_sum prices) (Fin (real (length prices)));
          variance =
            js_div (foldl (\<lambda>a b. js_add a (js_mul (js_sub b mean) (js_sub b mean)))
                          (Fin 0) prices)
                   (Fin (real (length prices)))
      in js_sqrt variance)"

definition calculateATR :: "jsnum list \<Rightarrow> jsnum" where
  "calculateATR prices =
     (if length prices < 2 then Fin 0
      else js_div (foldl (\<lambda>total change. js_add total (js_abs change)) (Fin 0)
                         (changes prices))
                  (Fin (real (length prices) - 1)))"

text \<open>\<open>Math.max(...xs)\<close> and \<open>Math.min(...xs)\<close>.\<close>

definition js_max_list :: "jsnum list \<Rightarrow> jsnum" where
  "js_max_list xs = foldl js_max NInf xs"

definition js_min_list :: "jsnum list \<Rightarrow> jsnum" where
  "js_min_list xs = foldl js_min PInf xs"

definition calculateIndicators :: "string \<Rightarrow> jsnum list \<Rightarrow> jsnum list
    \<Rightarrow> technical_indicators" where
  "calculateIndicators symb prices volumes =
     (let len = length prices
      in if len < 50
         then \<lparr>rsi = Fin 50,
               sma20 = js_or (js_nth prices (int len - 1)) (Fin 0),
               sma50 = js_or (js_nth prices (int len - 1)) (Fin 0),
               ema9 = js_or (js_nth prices (int len - 1)) (Fin 0),
               ema21 = js_or (js_nth prices (int len - 1)) (Fin 0),
               macd = Fin 0,
               macdSignal = Fin 0,
               bollingerUpper = js_or (js_nth prices (int len - 1)) (Fin 0),
               bollingerLower = js_or (js_nth prices (int len - 1)) (Fin 0),
               stochasticK = Fin 50,
               stochasticD = Fin 50,
               atr = Fin 0,
               volumeRatio = Fin 1\<rparr>
         else
           let rsi' = live_calculateRSI (js_slice_from prices (- 14));
               sma20' = js_div (js_sum (js_slice_from prices (- 20))) (Fin 20);
               sma50' = js_div (js_sum (js_slice_from prices (- 50))) (Fin 50);
               ema9' = live_calculateEMA (js_slice_from prices (- 9)) (Fin 9);
               ema21' = live_calculateEMA (js_slice_from prices (- 21)) (Fin 21);
               ema12 = live_calculateEMA (js_slice_from prices (- 12)) (Fin 12);
               ema26 = live_calculateEMA (js_slice_from prices (- 26)) (Fin 26);
               macd' = js_sub ema12 ema26;
               macdSignal' = live_calculateEMA [macd'] (Fin 9);
               stdDev' = calculateStandardDeviation (js_slice_from prices (- 20));
               bollingerUpper' = js_add sma20' (js_mul (Fin 2) stdDev');
               bollingerLower' = js_sub sma20' (js_mul (Fin 2) stdDev');
               high14 = js_max_list (js_slice_from prices (- 14));
               low14 = js_min_list (js_slice_from prices (- 14));
               currentPrice = js_nth prices (int len - 1);
               stochasticK' =
                 js_mul (js_div (js_sub currentPrice low14) (js_sub high14 low14)) (Fin 100);
               stochasticD' = stochasticK';
               atr' = calculateATR (js_slice_from prices (- 14));
               avgVolume = js_div (js_sum (js_slice_from volumes (- 20))) (Fin 20);
               currentVolume = js_or (js_nth volumes (int (length volumes) - 1)) (Fin 1);
               volumeRatio' = js_div currentVolume (js_or avgVolume (Fin 1))
           in \<lparr>rsi = rsi', sma20 = sma20', sma50 = sma50', ema9 = ema9', ema21 = ema21',
               macd = macd', macdSignal = macdSignal',
               bollingerUpper = bollingerUpper', bollingerLower = bollingerLower',
               stochasticK = stochasticK', stochasticD = stochasticD',
               atr = atr', volumeRatio = volumeRatio'\<rparr>)"

section \<open>Live engine: signals and trades (LiveTradingEngine.tsx)\<close>

record strategy_conditions =
  rsiOverbought :: jsnum
  rsiOversold :: jsnum
  emaSignal :: bool
  volumeThreshold :: jsnum
  priceAction :: bool

record trading_strategy =
  symbol :: string
  enabled :: bool
  quantity :: jsnum
  stopLoss :: jsnum
  takeProfit :: jsnum
  maxPositions :: jsnum
  conditions :: strategy_conditions

text \<open>The trigger descriptions of a signal, by kind, with the number they render.\<close>

datatype condition =
    RSI_oversold jsnum
  | RSI_overbought jsnum
  | EMA_bullish_crossover
  | EMA_bearish_crossover
  | High_volume jsnum
  | Price_below_lower_band
  | Price_above_upper_band
  | MACD_bullish
  | MACD_bearish

record trading_signal =
  symbol :: string
  action :: action
  strength :: jsnum
  price :: jsnum
  timestamp :: nat
  indicators :: technical_indicators
  conditions :: "condition list"

text \<open>
  The votes of \<open>generateSignal\<close>: the two counters and the conditions after each of
  the five checks, in the order of the source.
\<close>

record votes =
  buySignals :: nat
  sellSignals :: nat
  reasons :: "condition list"

definition vote_rsi :: "trading_strategy \<Rightarrow> technical_indicators \<Rightarrow> votes \<Rightarrow> votes" where
  "vote_rsi strat ind v =
     (if js_lt (rsi ind) (rsiOversold (trading_strategy.conditions strat))
      then v\<lparr>buySignals := buySignals v + 1, reasons := reasons v @ [RSI_oversold (rsi ind)]\<rparr>
      else if js_gt (rsi ind) (rsiOverbought (trading_strategy.conditions strat))
      then v\<lparr>sellSignals := sellSignals v + 1,
             reasons := reasons v @ [RSI_overbought (rsi ind)]\<rparr>
      else v)"

definition vote_ema :: "trading_strategy \<Rightarrow> technical_indicators \<Rightarrow> votes \<Rightarrow> votes" where
  "vote_ema strat ind v =
     (if emaSignal (trading_strategy.conditions strat)
      then (if js_gt (ema9 ind) (ema21 ind)
            then v\<lparr>buySignals := buySignals v + 1,
                   reasons := reasons v @ [EMA_bullish_crossover]\<rparr>
            else if js_lt (ema9 ind) (ema21 ind)
            then v\<lparr>sellSignals := sellSignals v + 1,
                   reasons := reasons v @ [EMA_bearish_crossover]\<rparr>
            else v)
      else v)"

definition vote_volume :: "trading_strategy \<Rightarrow> technical_indicators \<Rightarrow> votes \<Rightarrow> votes" where
  "vote_volume strat ind v =
     (if js_gt (volumeRatio ind) (volumeThreshold (trading_strategy.conditions strat))
      then
        let v' = v\<lparr>reasons := reasons v @ [High_volume (volumeRatio ind)]\<rparr>
        in if buySignals v' > sellSignals v' then v'\<lparr>buySignals := buySignals v' + 1\<rparr>
           else if sellSignals v' > buySignals v' then v'\<lparr>sellSignals := sellSignals v' + 1\<rparr>
           else v'
      else v)"

definition vote_bollinger :: "trading_strategy \<Rightarrow> jsnum \<Rightarrow> technical_indicators \<Rightarrow> votes
    \<Rightarrow> votes" where
  "vote_bollinger strat currentPrice ind v =
     (if priceAction (trading_strategy.conditions strat)
      then (if js_lt currentPrice (bollingerLower ind)
            then v\<lparr>buySignals := buySignals v + 1,
                   reasons := reasons v @ [Price_below_lower_band]\<rparr>
            else if js_gt currentPrice (bollingerUpper ind)
            then v\<lparr>sellSignals := sellSignals v + 1,
                   reasons := reasons v @ [Price_above_upper_band]\<rparr>
            else v)
      else v)"

definition vote_macd :: "technical_indicators \<Rightarrow> votes \<Rightarrow> votes" where
  "vote_macd ind v =
     (if js_gt (macd ind) (macdSignal ind)
      then v\<lparr>buySignals := buySignals v + 1, reasons := reasons v @ [MACD_bullish]\<rparr>
      else if js_lt (macd ind) (macdSignal ind)
      then v\<lparr>sellSignals := sellSignals v + 1, reasons := reasons v @ [MACD_bearish]\<rparr>
      else v)"

definition countVotes :: "trading_strategy \<Rightarrow> jsnum \<Rightarrow> technical_indicators \<Rightarrow> votes" where
  "countVotes strat currentPrice ind =
     vote_macd ind
       (vote_bollinger strat currentPrice ind
          (vote_volume strat ind
             (vote_ema strat ind
                (vote_rsi strat ind \<lparr>buySignals = 0, sellSignals = 0, reasons = []\<rparr>))))"

text \<open>
  \<open>generateSignal\<close>, over the strategies of the component and the clock. A symbol with
  no strategy, or with a disabled one, holds with strength 0.
\<close>

definition generateSignal :: "(string \<rightharpoonup> trading_strategy) \<Rightarrow> nat \<Rightarrow> string \<Rightarrow> jsnum
    \<Rightarrow> technical_indicators \<Rightarrow> trading_signal" where
  "generateSignal strats clock symb currentPrice ind =
     (case strats symb of
        None \<Rightarrow>
          \<lparr>symbol = symb, action = HOLD, strength = Fin 0, price = currentPrice,
           timestamp = clock, indicators = ind, conditions = []\<rparr>
      | Some strat \<Rightarrow>
          if \<not> trading_strategy.enabled strat
          then \<lparr>symbol = symb, action = HOLD, strength = Fin 0, price = currentPrice,
                timestamp = clock, indicators = ind, conditions = []\<rparr>
          else
            let v = countVotes strat currentPrice ind;
                (action', strength') =
                  (if buySignals v > sellSignals v \<and> buySignals v \<ge> 3
                   then (BUY, js_min (js_div (Fin (real (buySignals v))) (Fin 5)) (Fin 1))
                   else if sellSignals v > buySignals v \<and> sellSignals v \<ge> 3
                   then (SELL, js_min (js_div (Fin (real (sellSignals v))) (Fin 5)) (Fin 1))
                   else (HOLD, Fin 0))
            in \<lparr>symbol = symb, action = action', strength = strength',
                price = currentPrice, timestamp = clock, indicators = ind,
                conditions = reasons v\<rparr>)"

record live_position =
  position_id :: string
  symbol :: string
  side :: action
  quantity :: jsnum
  entryPrice :: jsnum
  currentPrice :: jsnum
  pnl :: jsnum
  timestamp :: nat
  orderId :: string

datatype log_level = info | success | warning | error

datatype live_log =
    MaxPositionsReached string
  | TooSoon string
  | Executing action string jsnum
  | OrderPlaced action string
  | OrderIdLog string
  | OrderFailed action string "string option"
  | ExecutionError string string
  | SignalFound action string "condition list"

text \<open>
  The state of the component that \<open>executeTrade\<close> reads and writes, with the orders it
  sent to the trading service. \<open>addLog\<close> keeps the last 199 lines and adds one.
\<close>

record live_state =
  positions :: "live_position list"
  lastTradeTime :: "string \<rightharpoonup> nat"
  logs :: "(log_level \<times> live_log) list"
  totalTrades :: nat
  placed :: "order list"

text \<open>
  The trading service answers as a function of the number of orders sent before, with a
  response or with an exception (its message); the clock and the random part of a
  position id come from the environment too.
\<close>

record live_env =
  placeOrder :: "nat \<Rightarrow> order \<Rightarrow> string + response"
  now :: nat
  randomId :: string

definition addLog :: "live_state \<Rightarrow> live_log \<Rightarrow> log_level \<Rightarrow> live_state" where
  "addLog st message level =
     st\<lparr>logs := js_slice_from (live_state.logs st) (- 199) @ [(level, message)]\<rparr>"

definition liveOrder :: "live_env \<Rightarrow> trading_strategy \<Rightarrow> trading_signal \<Rightarrow> order" where
  "liveOrder e strat sig =
     \<lparr>trading_symbol = trading_signal.symbol sig,
      instrument_token = ''NSE_EQ|'' @ trading_signal.symbol sig,
      quantity = trading_strategy.quantity strat,
      order.price = trading_signal.price sig,
      order_type = MARKET,
      transaction_type = trading_signal.action sig,
      product = ''MIS'',
      validity = ''DAY'',
      disclosed_quantity = None,
      trigger_price = None,
      is_amo = None,
      slice = None,
      tag = ''live_trading_'' @ show_nat (live_env.now e)\<rparr>"

text \<open>
  \<open>placeTrade\<close> is the \<open>try\<close> block of \<open>executeTrade\<close>: the order goes to the
  trading service; on success the position is recorded, on a refusal or an exception a
  line is logged.
\<close>

definition placeTrade :: "live_env \<Rightarrow> trading_strategy \<Rightarrow> live_state \<Rightarrow> trading_signal
    \<Rightarrow> live_state" where
  "placeTrade e strat st sig =
     (let st1 = addLog st
            (Executing (trading_signal.action sig)
               (trading_signal.symbol sig) (trading_signal.price sig)) info;
          orderData = liveOrder e strat sig;
          st2 = st1\<lparr>live_state.placed := live_state.placed st1 @ [orderData]\<rparr>
      in (case placeOrder e (length (live_state.placed st1)) orderData of
            Inl message \<Rightarrow>
              addLog st2 (ExecutionError (trading_signal.symbol sig) message) error
          | Inr (Success order_id) \<Rightarrow>
              let newPosition =
                    \<lparr>position_id = ''pos_'' @ show_nat (live_env.now e)
                       @ ''_'' @ randomId e,
                     symbol = trading_signal.symbol sig,
                     side = trading_signal.action sig,
                     quantity = trading_strategy.quantity strat,
                     entryPrice = trading_signal.price sig,
                     currentPrice = trading_signal.price sig,
                     pnl = Fin 0,
                     timestamp = live_env.now e,
                     orderId = order_id\<rparr>;
                  st3 = st2\<lparr>positions := positions st2 @ [newPosition],
                            lastTradeTime := (lastTradeTime st2)
                              (trading_signal.symbol sig \<mapsto> live_env.now e)\<rparr>;
                  st4 = addLog st3
                    (OrderPlaced (trading_signal.action sig)
                       (trading_signal.symbol sig)) success;
                  st5 = addLog st4 (OrderIdLog order_id) info
              in st5\<lparr>totalTrades := live_state.totalTrades st5 + 1\<rparr>
          | Inr (Failure err) \<Rightarrow>
              addLog st2
                (OrderFailed (trading_signal.action sig)
                   (trading_signal.symbol sig) err) error))"

definition executeTrade :: "live_env \<Rightarrow> (string \<rightharpoonup> trading_strategy) \<Rightarrow> live_state
    \<Rightarrow> trading_signal \<Rightarrow> live_state" where
  "executeTrade e strats st sig =
     (if trading_signal.action sig = HOLD \<or> js_lt (strength sig) (Fin (6 / 10)) then st
      else
        case strats (trading_signal.symbol sig) of
          None \<Rightarrow> st
        | Some strat \<Rightarrow>
            let currentPositions =
                  filter (\<lambda>p. live_position.symbol p = trading_signal.symbol sig)
                         (positions st)
            in if js_ge (Fin (real (length currentPositions))) (maxPositions strat)
               then addLog st (MaxPositionsReached (trading_signal.symbol sig)) warning
               else
                 let lastTrade =
                       (case lastTradeTime st (trading_signal.symbol sig) of
                          None \<Rightarrow> 0 | Some t \<Rightarrow> t)
                 in if int (live_env.now e) - int lastTrade < 30000
                    then addLog st (TooSoon (trading_signal.symbol sig)) warning
                    else placeTrade e strat st sig)"

text \<open>
  The part of \<open>runTradingLoop\<close> that, for one symbol, generates the signal and acts on
  it: a signal that is not HOLD goes to the front of the recent signals (20 are kept)
  and to the log, and is handed to \<open>executeTrade\<close> when its strength is at least 0.6.
  The mock price feed, the history buffers and the exit checks of the loop are not
  modelled; the state carries the recent signals beside what \<open>executeTrade\<close> uses.
\<close>

record loop_state =
  engine :: live_state
  signals :: "trading_signal list"

definition handleSignal :: "live_env \<Rightarrow> (string \<rightharpoonup> trading_strategy) \<Rightarrow> loop_state
    \<Rightarrow> string \<Rightarrow> jsnum \<Rightarrow> technical_indicators \<Rightarrow> loop_state" where
  "handleSignal e strats st symb p calculatedIndicators =
     (let sig = generateSignal strats (live_env.now e) symb p calculatedIndicators
      in if trading_signal.action sig \<noteq> HOLD
         then
           let st1 = st\<lparr>signals := sig # js_slice (signals st) 0 19,
                        engine := addLog (engine st)
                          (SignalFound (trading_signal.action sig) symb
                             (trading_signal.conditions sig)) warning\<rparr>
           in if js_ge (strength sig) (Fin (6 / 10))
              then st1\<lparr>engine := executeTrade e strats (engine st1) sig\<rparr>
              else st1
         else st)"

section \<open>Sequences of operations\<close>

text \<open>The price buffer of a symbol (empty when the symbol has none), and a run of appends.\<close>

definition historyOf :: "server_state \<Rightarrow> string \<Rightarrow> jsval list" where
  "historyOf st symb = (case priceHistory st symb of None \<Rightarrow> [] | Some h \<Rightarrow> h)"

text \<open>What \<open>addToHistory\<close> does to the buffer: push, then shift when over 200.\<close>

definition pushCap :: "jsval list \<Rightarrow> jsval \<Rightarrow> jsval list" where
  "pushCap h p = (if length (h @ [p]) > 200 then tl (h @ [p]) else h @ [p])"

definition addAllToHistory :: "server_state \<Rightarrow> string \<Rightarrow> jsval list \<Rightarrow> server_state" where
  "addAllToHistory st symb ps = foldl (\<lambda>s p. addToHistory s symb p) st ps"

text \<open>
  A tick is a price with its timestamp. It starts a new candle when
  \<open>addOrUpdateCandle\<close> takes its first branch; \<open>allStartNew\<close> says so of every tick
  of a run, each on the candles the ticks before it left.
\<close>

definition newCandle :: "jsnum \<Rightarrow> jsnum \<times> jsnum \<Rightarrow> candle" where
  "newCandle intervalSec tick =
     \<lparr>time = alignedTime (snd tick) intervalSec, open = fst tick, high = fst tick,
      low = fst tick, close = fst tick\<rparr>"

definition startsNewCandle :: "candle list \<Rightarrow> jsnum \<Rightarrow> jsnum \<times> jsnum \<Rightarrow> bool" where
  "startsNewCandle candles intervalSec tick =
     (candles = [] \<or> \<not> js_eq (candle.time (last candles)) (alignedTime (snd tick) intervalSec))"

definition addTicks :: "candle list \<Rightarrow> jsnum \<Rightarrow> (jsnum \<times> jsnum) list \<Rightarrow> candle list" where
  "addTicks candles intervalSec ticks =
     foldl (\<lambda>cs tick. addOrUpdateCandle cs (fst tick) (snd tick) intervalSec) candles ticks"

fun allStartNew :: "candle list \<Rightarrow> jsnum \<Rightarrow> (jsnum \<times> jsnum) list \<Rightarrow> bool" where
  "allStartNew candles intervalSec [] = True"
| "allStartNew candles intervalSec (tick # ticks) =
     (startsNewCandle candles intervalSec tick \<and>
      allStartNew (addOrUpdateCandle candles (fst tick) (snd tick) intervalSec)
        intervalSec ticks)"

text \<open>
  The signal of a turn of the cycle. The turn for a key, from the state the cycle is in,
  reads the strategy stored under the key, requests its quote, records the quoted price
  and evaluates the strategy there; \<open>turnSignal\<close> is that strategy with the signal
  \<open>evaluateStrategy\<close> returns at that point, and nothing when the key has no
  strategy, the quote fails, or the evaluation raises or returns no signal.
\<close>

definition turnSignal :: "env \<Rightarrow> server_state \<Rightarrow> string
    \<Rightarrow> (strategy \<times> timed_signal) option" where
  "turnSignal e st key =
     (case map_of (strategies st) key of
        None \<Rightarrow> None
      | Some strat \<Rightarrow>
          (case fetchMarketData e st (strategy.symbol strat) of
             (None, st0) \<Rightarrow> None
           | (Some md, st0) \<Rightarrow>
               (case evaluateStrategy e (afterQuote st0 strat md) strat of
                  Inl err \<Rightarrow> None
                | Inr None \<Rightarrow> None
                | Inr (Some sig) \<Rightarrow> Some (strat, sig))))"

text \<open>
  An order is a gated entry of that turn when the turn has a signal, the signal is not
  HOLD and has confidence at least 70, and the order carries the action of the signal
  and the quantity configured for the strategy.
\<close>

definition gatedTurn :: "env \<Rightarrow> server_state \<Rightarrow> string \<Rightarrow> order \<Rightarrow> bool" where
  "gatedTurn e st key ord =
     (case turnSignal e st key of
        None \<Rightarrow> False
      | Some (strat, sig) \<Rightarrow>
            signal.action sig \<noteq> HOLD
          \<and> js_ge (confidence sig) (Fin 70)
          \<and> transaction_type ord = signal.action sig
          \<and> order.quantity ord = parameters.quantity (parameters strat))"

text \<open>
  The state a cycle over the given keys, started in a state, has reached when it comes
  to its \<open>i\<close>-th key: the turns for the keys before it are done. An entry order of
  the scheduled path is gated when it is a gated entry of one of the turns of the cycle,
  taken from the state the cycle had reached at that turn.
\<close>

definition cycleState :: "env \<Rightarrow> server_state \<Rightarrow> string list \<Rightarrow> nat \<Rightarrow> server_state" where
  "cycleState e st keys i = foldl (processStrategy e) st (take i keys)"

definition gatedEntry :: "env \<Rightarrow> server_state \<Rightarrow> string list \<Rightarrow> order \<Rightarrow> bool" where
  "gatedEntry e st keys ord =
     (\<exists>i < length keys. gatedTurn e (cycleState e st keys i) (keys ! i) ord)"

text \<open>
  An entry order of the live path is gated when the signal is not HOLD and has strength
  at least 0.6, and the order has its action and the quantity of the strategy of its
  symbol.
\<close>

abbreviation gatedLiveEntry :: "(string \<rightharpoonup> trading_strategy) \<Rightarrow> trading_signal \<Rightarrow> order
    \<Rightarrow> bool" where
  "gatedLiveEntry strats sig ord \<equiv>
     (\<exists>strat.
         strats (trading_signal.symbol sig) = Some strat
       \<and> trading_signal.action sig \<noteq> HOLD
       \<and> js_ge (strength sig) (Fin (6 / 10))
       \<and> transaction_type ord = trading_signal.action sig
       \<and> order.quantity ord = trading_strategy.quantity strat)"

text \<open>The orders that the loop body sends for one strategy and quote.\<close>

definition bodyOrders :: "env \<Rightarrow> server_state \<Rightarrow> strategy \<Rightarrow> market_data \<Rightarrow> order list" where
  "bodyOrders e st strat md =
     (case evaluateStrategy e (afterQuote st strat md) strat of
        Inl err \<Rightarrow> []
      | Inr None \<Rightarrow> []
      | Inr (Some sig) \<Rightarrow>
          if js_ge (confidence sig) (Fin 70)
          then (case timed_signal.price sig of
                  None \<Rightarrow> [] | Some p \<Rightarrow> [entryOrder e strat sig p])
          else [])"

text \<open>The symbol under each key of the registry.\<close>

definition registrySymbols :: "server_state \<Rightarrow> (string \<times> string) list" where
  "registrySymbols st = map (\<lambda>(k, s). (k, strategy.symbol s)) (strategies st)"

section \<open>Example inputs\<close>

text \<open>
  Parameters with short EMA periods, for a crossing that can be followed by hand, and
  the periods of the four default strategies in one record.
\<close>

definition crossParameters :: parameters where
  "crossParameters = noParameters\<lparr>fastPeriod := Fin 1, slowPeriod := Fin 3\<rparr>"

definition sampleParameters :: parameters where
  "sampleParameters =
     noParameters\<lparr>fastPeriod := Fin 9, slowPeriod := Fin 21, rsiPeriod := Some 14,
       oversoldLevel := Fin 30, overboughtLevel := Fin 70, shortPeriod := Some 20,
       longPeriod := Some 50, trendStrength := Fin (12 / 10), period := Some 20,
       stdDev := Some (Fin 2),
       meanReversion := True, parameters.quantity := Fin 5, parameters.stopLoss := Fin 2,
       parameters.takeProfit := Fin 4\<rparr>"

text \<open>An environment in which every quote fails and every order is refused.\<close>

definition quietEnv :: env where
  "quietEnv =
     \<lparr>yahooQuote = (\<lambda>n s. None), placeOrderDirect = (\<lambda>n ord. Failure None), now = 0\<rparr>"

text \<open>The start-up state after 19 quotes of 100 for TCS.\<close>

definition warmupState :: server_state where
  "warmupState =
     initialState\<lparr>priceHistory := [''TCS.NS'' \<mapsto> replicate 19 (Some (Fin 100))]\<rparr>"

text \<open>
  A full price buffer, the prices 1 to 200 in order of arrival, and a full hour of
  one-minute candles, starting at times 0, 60, ..., 3540.
\<close>

definition fullHistory :: "jsval list" where
  "fullHistory = map (\<lambda>n. Some (Fin (real n))) [1 ..< 201]"

definition fullHistoryState :: server_state where
  "fullHistoryState = initialState\<lparr>priceHistory := [''TCS.NS'' \<mapsto> fullHistory]\<rparr>"

definition minuteCandles :: "candle list" where
  "minuteCandles =
     map (\<lambda>n. \<lparr>time = Fin (60 * real n), open = Fin 100, high = Fin 101, low = Fin 99,
                close = Fin 100\<rparr>) [0 ..< 60]"

text \<open>An update that names no field, and one that only enables the strategy.\<close>

definition noUpdates :: strategy_updates where
  "noUpdates =
     \<lparr>upd_id = None, upd_name = None, upd_type = None, upd_symbol = None,
      upd_enabled = None, upd_parameters = None, upd_performance = None,
      upd_lastSignal = None\<rparr>"

definition enableUpdate :: strategy_updates where
  "enableUpdate = noUpdates\<lparr>upd_enabled := Some True\<rparr>"

text \<open>The start-up state with 100 lines in the logs.\<close>

definition fullLogsState :: server_state where
  "fullLogsState = initialState\<lparr>server_state.logs := replicate 100 (AutoTradingLog True)\<rparr>"

text \<open>
  The two strategies the component starts with, and indicators on which three checks vote
  to buy: RSI below the oversold level, the fast EMA above the slow one, high volume.
\<close>

definition bankniftyStrategy :: trading_strategy where
  "bankniftyStrategy =
     \<lparr>trading_strategy.symbol = ''BANKNIFTY'', trading_strategy.enabled = True,
      trading_strategy.quantity = Fin 15, trading_strategy.stopLoss = Fin 50,
      trading_strategy.takeProfit = Fin 100, maxPositions = Fin 2,
      trading_strategy.conditions =
        \<lparr>rsiOverbought = Fin 70, rsiOversold = Fin 30, emaSignal = True,
         volumeThreshold = Fin (3 / 2), priceAction = True\<rparr>\<rparr>"

definition niftyStrategy :: trading_strategy where
  "niftyStrategy =
     \<lparr>trading_strategy.symbol = ''NIFTY'', trading_strategy.enabled = True,
      trading_strategy.quantity = Fin 25, trading_strategy.stopLoss = Fin 30,
      trading_strategy.takeProfit = Fin 60, maxPositions = Fin 2,
      trading_strategy.conditions =
        \<lparr>rsiOverbought = Fin 75, rsiOversold = Fin 25, emaSignal = True,
         volumeThreshold = Fin (12 / 10), priceAction = True\<rparr>\<rparr>"

definition liveStrategies :: "string \<rightharpoonup> trading_strategy" where
  "liveStrategies = [''BANKNIFTY'' \<mapsto> bankniftyStrategy, ''NIFTY'' \<mapsto> niftyStrategy]"

definition bullishIndicators :: technical_indicators where
  "bullishIndicators =
     \<lparr>rsi = Fin 20, sma20 = Fin 19400, sma50 = Fin 19400, ema9 = Fin 19450,
      ema21 = Fin 19400, macd = Fin 0, macdSignal = Fin 0, bollingerUpper = Fin 19600,
      bollingerLower = Fin 19200, stochasticK = Fin 50, stochasticD = Fin 50, atr = Fin 10,
      volumeRatio = Fin 2\<rparr>"

text \<open>
  An environment whose quotes fail and whose gateway accepts every order under the id
  ORD1, and a BUY signal at price 100 for the default EMA strategy (stop-loss 2 percent,
  take-profit 4 percent, quantity 25).
\<close>

definition acceptingEnv :: env where
  "acceptingEnv =
     \<lparr>yahooQuote = (\<lambda>n s. None), placeOrderDirect = (\<lambda>n ord. Success ''ORD1''),
      env.now = 0\<rparr>"

definition sellSignal :: timed_signal where
  "sellSignal =
     \<lparr>signal.action = SELL, confidence = Fin 85, timed_signal.timestamp = 0,
      timed_signal.price = Some (Fin 100)\<rparr>"

definition buySignal :: timed_signal where
  "buySignal =
     \<lparr>signal.action = BUY, confidence = Fin 85, timed_signal.timestamp = 0,
      timed_signal.price = Some (Fin 100)\<rparr>"

text \<open>The state after \<open>executeRealTrade\<close> for that signal from the start-up state.\<close>

definition afterEntryState :: server_state where
  "afterEntryState =
     snd (executeRealTrade acceptingEnv initialState ''ema_crossover_1''
            (defaultStrategies ! 0) buySignal)"

text \<open>
  A cycle with three enabled strategies, EMA, RSI and SMA in the order of the registry.
  The RSI strategy has 19 falling prices in its history, 200 down to 182. In
  \<open>tradingEnv\<close> its quote is 181, the two other quotes fail, and the gateway accepts
  every order under the id ORD1. In \<open>noPriceEnv\<close> its quote comes without a price, and
  the SMA strategy is quoted 2500.
\<close>

definition fallingPrices :: "jsval list" where
  "fallingPrices = map (\<lambda>n. Some (Fin (200 - real n))) [0 ..< 19]"

definition emaOn :: strategy where
  "emaOn = (defaultStrategies ! 0)\<lparr>strategy.enabled := True\<rparr>"

definition rsiOn :: strategy where
  "rsiOn = (defaultStrategies ! 1)\<lparr>strategy.enabled := True\<rparr>"

definition smaOn :: strategy where
  "smaOn = (defaultStrategies ! 2)\<lparr>strategy.enabled := True\<rparr>"

definition readyState :: server_state where
  "readyState =
     initialState
       \<lparr>strategies :=
          [(''ema_crossover_1'', emaOn), (''rsi_oversold_1'', rsiOn),
           (''sma_trend_1'', smaOn), (''bollinger_bands_1'', defaultStrategies ! 3)],
        status := running,
        autoTradingEnabled := True,
        priceHistory := [''BANKNIFTY.NS'' \<mapsto> fallingPrices]\<rparr>"

definition quoteAt :: "jsval \<Rightarrow> quote" where
  "quoteAt p =
     \<lparr>regularMarketPrice = p, regularMarketOpen = p, regularMarketDayHigh = p,
      regularMarketDayLow = p, regularMarketVolume = Some (Fin 1000),
      regularMarketChange = Some (Fin 0), regularMarketChangePercent = Some (Fin 0)\<rparr>"

definition tradingEnv :: env where
  "tradingEnv =
     \<lparr>yahooQuote = (\<lambda>n s. if s = ''BANKNIFTY.NS'' then Some (quoteAt (Some (Fin 181)))
                           else None),
      placeOrderDirect = (\<lambda>n ord. Success ''ORD1''),
      env.now = 0\<rparr>"

definition noPriceEnv :: env where
  "noPriceEnv =
     \<lparr>yahooQuote = (\<lambda>n s. if s = ''BANKNIFTY.NS'' then Some (quoteAt None)
                           else if s = ''RELIANCE.NS'' then Some (quoteAt (Some (Fin 2500)))
                           else None),
      placeOrderDirect = (\<lambda>n ord. Success ''ORD1''),
      env.now = 0\<rparr>"

text \<open>The signal of the RSI strategy on these prices, with the quoted price.\<close>

definition rsiBuy :: "jsval \<Rightarrow> timed_signal" where
  "rsiBuy p =
     \<lparr>signal.action = BUY, confidence = Fin 100, timed_signal.timestamp = 0,
      timed_signal.price = p\<rparr>"

text \<open>The state after the first turn, whose quote fails in both environments.\<close>

definition afterFirstTurn :: server_state where
  "afterFirstTurn =
     readyState\<lparr>fetched := [''NIFTY.NS''], console := [FetchFailed ''NIFTY.NS'']\<rparr>"

definition marketDataAt :: "jsval \<Rightarrow> market_data" where
  "marketDataAt p =
     \<lparr>market_data.price = p, market_data.open = p, market_data.high = p,
      market_data.low = p, volume = Some (Fin 1000), change = Some (Fin 0),
      changePercent = Some (Fin 0), market_data.timestamp = 0\<rparr>"

definition afterSecondQuote :: server_state where
  "afterSecondQuote = afterFirstTurn\<lparr>fetched := [''NIFTY.NS'', ''BANKNIFTY.NS'']\<rparr>"

text \<open>
  The live engine at rest, with a trading service that accepts every order under the id
  L1.
\<close>

definition liveEnv :: live_env where
  "liveEnv =
     \<lparr>placeOrder = (\<lambda>n ord. Inr (Success ''L1'')), live_env.now = 1700000000000,
      randomId = ''k3x9q2m1z''\<rparr>"

definition idleLoop :: loop_state where
  "idleLoop =
     \<lparr>engine = \<lparr>positions = [], lastTradeTime = Map.empty, live_state.logs = [],
                 live_state.totalTrades = 0, live_state.placed = []\<rparr>,
      signals = []\<rparr>"

section \<open>Properties of the strategy evaluators\<close>

lemma js_eq_le_ge: "js_eq a b \<Longrightarrow> js_le a b \<and> js_ge a b"
  by (cases a; cases b; simp add: js_le_def js_ge_def)

lemma ema_example_fast: "calculateEMA [Fin 1, Fin 1, Fin 2] (Fin 1) = [Fin 1, Fin 1, Fin 2]"
  by (simp add: calculateEMA_def js_nth_def js_sub_def Let_def)

lemma ema_example_slow:
  "calculateEMA [Fin 1, Fin 1, Fin 2] (Fin 3) = [Fin 1, Fin 1, Fin (3 / 2)]"
  by (simp add: calculateEMA_def js_nth_def js_sub_def Let_def)

text \<open>
  C1 (as amended). With enough history, when the fast and the slow EMA are equal at the
  previous index, \<open>evaluateEMACrossover\<close> looks at the last index only: it answers BUY
  with confidence 85 when the fast EMA is strictly above the slow one there, SELL with
  confidence 85 when it is strictly below, and HOLD otherwise. The comparison on the
  side before the crossing is not strict.
\<close>

theorem ema_equal_before_crossing:
  assumes "\<not> js_lt (Fin (real (length prices))) (slowPeriod params)"
      and "fastEMA = calculateEMA prices (fastPeriod params)"
      and "slowEMA = calculateEMA prices (slowPeriod params)"
      and "js_eq (js_nth fastEMA (int (length fastEMA) - 2))
                 (js_nth slowEMA (int (length slowEMA) - 2))"
  shows "evaluateEMACrossover prices params =
     (if js_gt (js_nth fastEMA (int (length fastEMA) - 1))
               (js_nth slowEMA (int (length slowEMA) - 1))
      then \<lparr>signal.action = BUY, confidence = Fin 85\<rparr>
      else if js_lt (js_nth fastEMA (int (length fastEMA) - 1))
                    (js_nth slowEMA (int (length slowEMA) - 1))
      then \<lparr>signal.action = SELL, confidence = Fin 85\<rparr>
      else \<lparr>signal.action = HOLD, confidence = Fin 0\<rparr>)"
  using assms(1) js_eq_le_ge[OF assms(4)]
  by (simp add: evaluateEMACrossover_def Let_def assms(2,3))

theorem ema_equal_before_crossing_witness:
  "\<not> js_lt (Fin (real (length [Fin 1, Fin 1, Fin 2]))) (slowPeriod crossParameters)
   \<and> js_eq (js_nth (calculateEMA [Fin 1, Fin 1, Fin 2] (fastPeriod crossParameters)) 1)
            (js_nth (calculateEMA [Fin 1, Fin 1, Fin 2] (slowPeriod crossParameters)) 1)
   \<and> evaluateEMACrossover [Fin 1, Fin 1, Fin 2] crossParameters
       = \<lparr>signal.action = BUY, confidence = Fin 85\<rparr>"
  using ema_equal_before_crossing [of "[Fin 1, Fin 1, Fin 2]" crossParameters
      "calculateEMA [Fin 1, Fin 1, Fin 2] (fastPeriod crossParameters)"
      "calculateEMA [Fin 1, Fin 1, Fin 2] (slowPeriod crossParameters)"]
  by (simp add: crossParameters_def noParameters_def ema_example_fast ema_example_slow
        js_nth_def js_gt_def)

text \<open>
  The claim as first stated fails: on the prices 1, 1, 2 with periods 1 and 3 the two
  EMA series are 1, 1, 2 and 1, 1, 1.5, equal at the previous index, and the evaluator
  does not hold.
\<close>

theorem ema_equal_before_counterexample:
  "js_eq (js_nth (calculateEMA [Fin 1, Fin 1, Fin 2] (fastPeriod crossParameters)) 1)
         (js_nth (calculateEMA [Fin 1, Fin 1, Fin 2] (slowPeriod crossParameters)) 1)
   \<and> signal.action (evaluateEMACrossover [Fin 1, Fin 1, Fin 2] crossParameters) \<noteq> HOLD"
  by (simp add: evaluateEMACrossover_def crossParameters_def noParameters_def
        ema_example_fast ema_example_slow js_nth_def js_gt_def js_le_def)

lemma length_calculateSMA:
  "length (calculateSMA prices (Some n)) = length prices + 1 - n"
  by (simp add: calculateSMA_def)

lemma bands_empty:
  "(calculateBollingerBands prices p sd = [])
     = (length prices < (case p of None \<Rightarrow> 20 | Some n \<Rightarrow> n))"
  by (auto simp add: calculateBollingerBands_def Let_def length_calculateSMA
      split: option.splits)

text \<open>
  \<open>evaluateBollingerBands\<close> raises exactly when the parameters carry no period and
  there are fewer than 20 prices; \<open>evaluateStrategy\<close>, which asks for 20 samples
  first, never raises.
\<close>

lemma evaluateBollingerBands_error:
  "(evaluateBollingerBands prices params = Inl err)
     = (period params = None \<and> length prices < 20)"
proof (cases "period params")
  case None
  then show ?thesis
    by (cases err)
       (simp add: evaluateBollingerBands_def Let_def period_number_def bands_empty)
next
  case (Some n)
  then show ?thesis
    by (auto simp add: evaluateBollingerBands_def Let_def period_number_def bands_empty)
qed

lemma evaluateStrategy_no_error: "evaluateStrategy e st strat \<noteq> Inl err"
  by (auto simp add: evaluateStrategy_def Let_def evaluateBollingerBands_error
      split: option.splits strategy_type.splits sum.splits)

text \<open>
  C4. Every evaluator answers HOLD with confidence 0, and raises nothing, on a price
  list shorter than its lookback: \<open>evaluateEMACrossover\<close> below \<open>slowPeriod\<close>,
  \<open>evaluateRSIOversold\<close> below \<open>rsiPeriod + 1\<close>, \<open>evaluateSMATrend\<close> below
  \<open>longPeriod\<close>, \<open>evaluateBollingerBands\<close> below \<open>period\<close>; and
  \<open>evaluateStrategy\<close> returns no signal when the symbol has no history or fewer than
  20 samples. The lookback is the period the parameters carry: parameters without it
  give no length to be shorter than, and the guard, comparing with \<open>undefined\<close>, lets
  every price list through.
\<close>

theorem insufficient_history_holds:
  "(js_lt (Fin (real (length prices))) (slowPeriod params) \<longrightarrow>
      evaluateEMACrossover prices params = \<lparr>signal.action = HOLD, confidence = Fin 0\<rparr>)
 \<and> (rsiPeriod params = Some n \<and> length prices < n + 1 \<longrightarrow>
      evaluateRSIOversold prices params = \<lparr>signal.action = HOLD, confidence = Fin 0\<rparr>)
 \<and> (longPeriod params = Some m \<and> length prices < m \<longrightarrow>
      evaluateSMATrend prices params = \<lparr>signal.action = HOLD, confidence = Fin 0\<rparr>)
 \<and> (period params = Some k \<and> length prices < k \<longrightarrow>
      evaluateBollingerBands prices params
        = Inr \<lparr>signal.action = HOLD, confidence = Fin 0\<rparr>)
 \<and> ((case priceHistory st (strategy.symbol strat) of
        None \<Rightarrow> True | Some h \<Rightarrow> length h < 20) \<longrightarrow>
      evaluateStrategy e st strat = Inr None)"
  by (simp add: evaluateEMACrossover_def evaluateRSIOversold_def evaluateSMATrend_def
       evaluateBollingerBands_def evaluateStrategy_def period_number_def
       split: option.splits)

theorem insufficient_history_holds_witness:
  "js_lt (Fin (real (length (replicate 10 (Fin 100))))) (slowPeriod sampleParameters)
   \<and> rsiPeriod sampleParameters = Some 14 \<and> length (replicate 10 (Fin 100)) < 14 + 1
   \<and> longPeriod sampleParameters = Some 50 \<and> length (replicate 10 (Fin 100)) < 50
   \<and> period sampleParameters = Some 20 \<and> length (replicate 10 (Fin 100)) < 20
   \<and> priceHistory warmupState (strategy.symbol (defaultStrategies ! 3))
       = Some (replicate 19 (Some (Fin 100)))
   \<and> evaluateEMACrossover (replicate 10 (Fin 100)) sampleParameters
       = \<lparr>signal.action = HOLD, confidence = Fin 0\<rparr>
   \<and> evaluateRSIOversold (replicate 10 (Fin 100)) sampleParameters
       = \<lparr>signal.action = HOLD, confidence = Fin 0\<rparr>
   \<and> evaluateSMATrend (replicate 10 (Fin 100)) sampleParameters
       = \<lparr>signal.action = HOLD, confidence = Fin 0\<rparr>
   \<and> evaluateBollingerBands (replicate 10 (Fin 100)) sampleParameters
       = Inr \<lparr>signal.action = HOLD, confidence = Fin 0\<rparr>
   \<and> evaluateStrategy quietEnv warmupState (defaultStrategies ! 3) = Inr None"
proof -
  have h: "priceHistory warmupState (strategy.symbol (defaultStrategies ! 3))
            = Some (replicate 19 (Some (Fin 100)))"
    by (simp add: warmupState_def defaultStrategies_def)
  show ?thesis
    using insufficient_history_holds [of "replicate 10 (Fin 100)" sampleParameters
        14 50 20 warmupState "defaultStrategies ! 3" quietEnv] h
    by (simp add: sampleParameters_def noParameters_def)
qed

section \<open>Properties of the history buffers\<close>

lemma slice_from_neg: "0 < n \<Longrightarrow> js_slice_from xs (- int n) = drop (length xs - n) xs"
proof -
  assume "0 < n"
  have "nat (max (int (length xs) - int n) 0) = length xs - n" by simp
  then show ?thesis using \<open>0 < n\<close> by (simp add: js_slice_from_def slice_index_def)
qed

lemma tl_drop_one: "tl xs = drop (Suc 0) xs"
  by (cases xs) simp_all

lemma historyOf_addToHistory:
  "historyOf (addToHistory st symb p) symb = pushCap (historyOf st symb) p"
  by (simp add: historyOf_def addToHistory_def pushCap_def Let_def split: option.splits)

lemma pushCap_drop:
  "length h \<le> 200 \<Longrightarrow> pushCap h p = drop (length h + 1 - 200) (h @ [p])"
proof (cases "length h = 200")
  case True
  have "tl (h @ [p]) = drop (Suc 0) (h @ [p])" by (rule tl_drop_one)
  then show ?thesis using True by (simp add: pushCap_def)
next
  case False
  assume "length h \<le> 200"
  with False show ?thesis by (simp add: pushCap_def)
qed

lemma foldl_pushCap:
  "length h \<le> 200 \<Longrightarrow> foldl pushCap h ps = drop (length h + length ps - 200) (h @ ps)"
proof (induction ps arbitrary: h)
  case Nil
  then show ?case by simp
next
  case (Cons p ps)
  let ?k = "length h + 1 - 200"
  have step: "pushCap h p = drop ?k (h @ [p])" using Cons.prems by (rule pushCap_drop)
  have len1: "length (pushCap h p) = length h + 1 - ?k" by (simp add: step)
  have len: "length (pushCap h p) \<le> 200" using Cons.prems len1 by arith
  have app: "pushCap h p @ ps = drop ?k (h @ p # ps)"
    using Cons.prems by (simp add: step)
  have eq: "length (pushCap h p) + length ps - 200 + ?k = length h + length (p # ps) - 200"
    using Cons.prems len1 by simp
  have "foldl pushCap h (p # ps) = foldl pushCap (pushCap h p) ps" by simp
  also have "\<dots> = drop (length (pushCap h p) + length ps - 200) (pushCap h p @ ps)"
    using Cons.IH[OF len] .
  also have "\<dots> = drop (length h + length (p # ps) - 200) (h @ p # ps)"
    by (simp only: app drop_drop eq)
  finally show ?case .
qed

lemma historyOf_addAll:
  "historyOf (addAllToHistory st symb ps) symb = foldl pushCap (historyOf st symb) ps"
  unfolding addAllToHistory_def
  by (induction ps arbitrary: st) (simp_all add: historyOf_addToHistory)

lemma addCandle_new:
  "startsNewCandle cs i tick \<Longrightarrow>
   addOrUpdateCandle cs (fst tick) (snd tick) i
     = drop (length cs + 1 - 60) (cs @ [newCandle i tick])"
  using slice_from_neg[of 60 "cs @ [newCandle i tick]"]
  by (simp add: addOrUpdateCandle_def startsNewCandle_def newCandle_def Let_def)

lemma addTicks_step:
  assumes step: "cs1 = drop (length cs + 1 - 60) (cs @ [c])"
      and ih: "rest = drop (length cs1 + n - 60) (cs1 @ tailc)"
      and n: "length tailc = n"
  shows "rest = drop (length cs + Suc n - 60) (cs @ c # tailc)"
proof -
  let ?k = "length cs + 1 - 60"
  have len1: "length cs1 = length cs + 1 - ?k" by (simp add: step)
  have app: "cs1 @ tailc = drop ?k (cs @ c # tailc)"
  proof -
    have "?k \<le> length (cs @ [c])" by simp
    then have "drop ?k (cs @ [c]) @ tailc = drop ?k ((cs @ [c]) @ tailc)" by simp
    then show ?thesis by (simp add: step)
  qed
  have eq: "length cs1 + n - 60 + ?k = length cs + Suc n - 60"
    using len1 by arith
  show ?thesis by (simp only: ih app drop_drop eq)
qed

lemma addTicks_new:
  "ticks \<noteq> [] \<or> length cs \<le> 60 \<Longrightarrow> allStartNew cs i ticks \<Longrightarrow>
   addTicks cs i ticks = drop (length cs + length ticks - 60) (cs @ map (newCandle i) ticks)"
proof (induction ticks arbitrary: cs)
  case Nil
  then show ?case by (simp add: addTicks_def)
next
  case (Cons t ticks)
  let ?cs1 = "addOrUpdateCandle cs (fst t) (snd t) i"
  have new: "startsNewCandle cs i t" and rest: "allStartNew ?cs1 i ticks"
    using Cons.prems(2) by simp_all
  have step: "?cs1 = drop (length cs + 1 - 60) (cs @ [newCandle i t])"
    using new by (rule addCandle_new)
  have len: "length ?cs1 \<le> 60" by (simp add: step)
  have ih: "addTicks ?cs1 i ticks
      = drop (length ?cs1 + length ticks - 60) (?cs1 @ map (newCandle i) ticks)"
    using Cons.IH[OF _ rest] len by simp
  have "addTicks cs i (t # ticks) = addTicks ?cs1 i ticks" by (simp add: addTicks_def)
  also have "\<dots> = drop (length cs + Suc (length ticks) - 60)
                     (cs @ newCandle i t # map (newCandle i) ticks)"
    using addTicks_step[OF step ih] by simp
  finally show ?case by simp
qed

text \<open>
  C6. Eviction is first in, first out at a fixed cap. A price appended to a buffer of
  200 leaves the 200 entries that follow the oldest, the new price last. A tick that
  starts a new candle on a list of 60 or more candles leaves the last 59 of them and
  the new candle, 60 in all. And for runs: appending prices to a buffer within the cap
  (as every buffer of the server is) up to or beyond 200 leaves exactly the last 200 of
  all entries in order, and one or more ticks that each start a new candle, reaching 60
  candles or more, leave exactly the last 60.
\<close>

theorem buffer_eviction_fifo:
  "(priceHistory st symb = Some h \<and> length h = 200 \<longrightarrow>
       priceHistory (addToHistory st symb p) symb = Some (tl h @ [p])
       \<and> length (tl h @ [p]) = 200)
 \<and> (60 \<le> length candles \<and> startsNewCandle candles i tick \<longrightarrow>
       addOrUpdateCandle candles (fst tick) (snd tick) i
         = drop (length candles - 59) candles @ [newCandle i tick]
       \<and> length (addOrUpdateCandle candles (fst tick) (snd tick) i) = 60)
 \<and> (length (historyOf st symb) \<le> 200 \<and> 200 \<le> length (historyOf st symb) + length ps \<longrightarrow>
       historyOf (addAllToHistory st symb ps) symb
         = drop (length (historyOf st symb) + length ps - 200) (historyOf st symb @ ps)
       \<and> length (historyOf (addAllToHistory st symb ps) symb) = 200)
 \<and> (ticks \<noteq> [] \<and> 60 \<le> length candles + length ticks \<and> allStartNew candles i ticks \<longrightarrow>
       addTicks candles i ticks
         = drop (length candles + length ticks - 60) (candles @ map (newCandle i) ticks)
       \<and> length (addTicks candles i ticks) = 60)"
proof (intro conjI impI)
  assume a: "priceHistory st symb = Some h \<and> length h = 200"
  then have "h \<noteq> []" by auto
  then show "priceHistory (addToHistory st symb p) symb = Some (tl h @ [p])"
    using a by (simp add: addToHistory_def Let_def)
  show "length (tl h @ [p]) = 200" using a by simp
next
  assume a: "60 \<le> length candles \<and> startsNewCandle candles i tick"
  then have eq: "addOrUpdateCandle candles (fst tick) (snd tick) i
      = drop (length candles + 1 - 60) (candles @ [newCandle i tick])"
    by (simp add: addCandle_new)
  have k: "length candles + 1 - 60 = length candles - 59" by simp
  show "addOrUpdateCandle candles (fst tick) (snd tick) i
         = drop (length candles - 59) candles @ [newCandle i tick]"
    using a by (simp add: eq k)
  show "length (addOrUpdateCandle candles (fst tick) (snd tick) i) = 60"
    using a by (simp add: eq)
next
  assume a: "length (historyOf st symb) \<le> 200
      \<and> 200 \<le> length (historyOf st symb) + length ps"
  then show eq: "historyOf (addAllToHistory st symb ps) symb
     = drop (length (historyOf st symb) + length ps - 200) (historyOf st symb @ ps)"
    by (simp add: historyOf_addAll foldl_pushCap)
  show "length (historyOf (addAllToHistory st symb ps) symb) = 200"
    using a by (simp add: eq)
next
  assume a: "ticks \<noteq> [] \<and> 60 \<le> length candles + length ticks
      \<and> allStartNew candles i ticks"
  then show eq: "addTicks candles i ticks
     = drop (length candles + length ticks - 60) (candles @ map (newCandle i) ticks)"
    by (simp add: addTicks_new)
  show "length (addTicks candles i ticks) = 60"
    using a by (simp add: eq)
qed

lemma minuteCandles_length: "length minuteCandles = 60"
  by (simp add: minuteCandles_def)

lemma minuteCandles_last: "candle.time (last minuteCandles) = Fin 3540"
  by (simp add: minuteCandles_def last_map)

lemma aligned_3600: "alignedTime (Fin 3600) (Fin 60) = Fin 3600"
  by (simp add: alignedTime_def)

lemma aligned_3660: "alignedTime (Fin 3660) (Fin 60) = Fin 3660"
  by (simp add: alignedTime_def)

lemma starts_first: "startsNewCandle minuteCandles (Fin 60) (Fin 102, Fin 3600)"
  by (simp add: startsNewCandle_def minuteCandles_last aligned_3600)

lemma starts_both:
  "allStartNew minuteCandles (Fin 60) [(Fin 102, Fin 3600), (Fin 103, Fin 3660)]"
proof -
  have "addOrUpdateCandle minuteCandles (Fin 102) (Fin 3600) (Fin 60)
     = drop (length minuteCandles + 1 - 60)
         (minuteCandles @ [newCandle (Fin 60) (Fin 102, Fin 3600)])"
    using addCandle_new[OF starts_first] by simp
  then have "candle.time (last (addOrUpdateCandle minuteCandles (Fin 102) (Fin 3600) (Fin 60)))
     = Fin 3600"
    by (simp add: minuteCandles_length newCandle_def aligned_3600)
  then show ?thesis
    using starts_first by (simp add: startsNewCandle_def aligned_3660)
qed

lemma fullHistory_length: "length fullHistory = 200"
  by (simp add: fullHistory_def)

theorem buffer_eviction_fifo_witness:
  "priceHistory fullHistoryState ''TCS.NS'' = Some fullHistory
   \<and> length fullHistory = 200
   \<and> 60 \<le> length minuteCandles
   \<and> startsNewCandle minuteCandles (Fin 60) (Fin 102, Fin 3600)
   \<and> length (historyOf fullHistoryState ''TCS.NS'') \<le> 200
   \<and> 200 \<le> length (historyOf fullHistoryState ''TCS.NS'')
             + length [Some (Fin 201), Some (Fin 202)]
   \<and> [(Fin 102, Fin 3600), (Fin 103, Fin 3660)] \<noteq> []
   \<and> allStartNew minuteCandles (Fin 60) [(Fin 102, Fin 3600), (Fin 103, Fin 3660)]
   \<and> priceHistory (addToHistory fullHistoryState ''TCS.NS'' (Some (Fin 201))) ''TCS.NS''
       = Some (tl fullHistory @ [Some (Fin 201)])
   \<and> addOrUpdateCandle minuteCandles (Fin 102) (Fin 3600) (Fin 60)
       = drop 1 minuteCandles @ [newCandle (Fin 60) (Fin 102, Fin 3600)]
   \<and> historyOf (addAllToHistory fullHistoryState ''TCS.NS''
         [Some (Fin 201), Some (Fin 202)]) ''TCS.NS''
       = drop 2 fullHistory @ [Some (Fin 201), Some (Fin 202)]
   \<and> addTicks minuteCandles (Fin 60) [(Fin 102, Fin 3600), (Fin 103, Fin 3660)]
       = drop 2 minuteCandles
           @ [newCandle (Fin 60) (Fin 102, Fin 3600), newCandle (Fin 60) (Fin 103, Fin 3660)]"
proof -
  have h: "priceHistory fullHistoryState ''TCS.NS'' = Some fullHistory"
    by (simp add: fullHistoryState_def)
  have ho: "historyOf fullHistoryState ''TCS.NS'' = fullHistory"
    by (simp add: historyOf_def h)
  show ?thesis
    using buffer_eviction_fifo [of fullHistoryState "''TCS.NS''" fullHistory
        "Some (Fin 201)" minuteCandles "Fin 60" "(Fin 102, Fin 3600)"
        "[Some (Fin 201), Some (Fin 202)]"
        "[(Fin 102, Fin 3600), (Fin 103, Fin 3660)]"]
      h starts_first starts_both
    by (simp add: ho fullHistory_length minuteCandles_length)
qed

section \<open>Properties of the routes\<close>

lemma map_of_modify:
  "map_of (map (\<lambda>(k, s). if k = key then (k, f s) else (k, s)) xs) k'
     = (if k' = key then map_option f (map_of xs k') else map_of xs k')"
  by (induction xs) auto

lemma strategies_modifyStrategy:
  "map_of (strategies (modifyStrategy st key f)) k
     = (if k = key then map_option f (map_of (strategies st) k) else map_of (strategies st) k)"
  by (simp add: modifyStrategy_def map_of_modify)

lemma keys_modifyStrategy:
  "map fst (strategies (modifyStrategy st key f)) = map fst (strategies st)"
  by (simp add: modifyStrategy_def comp_def case_prod_beta)

text \<open>
  C9. The partial update of an existing strategy merges: the strategy stored under the
  id afterwards (which is also the one sent back) has, in each field that the update
  does not name, the value it had, and in each field that it names, the value given;
  every other key of the registry holds the strategy it held, and the keys and their
  order are as before.
\<close>

theorem put_strategy_merge:
  assumes "map_of (strategies st) strategyId = Some strat"
  shows "\<exists>strat'.
      map_of (strategies (snd (putStrategy st strategyId updates))) strategyId = Some strat'
    \<and> fst (putStrategy st strategyId updates) = Some strat'
    \<and> id' strat' = (case upd_id updates of None \<Rightarrow> id' strat | Some v \<Rightarrow> v)
    \<and> name strat' = (case upd_name updates of None \<Rightarrow> name strat | Some v \<Rightarrow> v)
    \<and> type strat' = (case upd_type updates of None \<Rightarrow> type strat | Some v \<Rightarrow> v)
    \<and> strategy.symbol strat'
        = (case upd_symbol updates of None \<Rightarrow> strategy.symbol strat | Some v \<Rightarrow> v)
    \<and> strategy.enabled strat'
        = (case upd_enabled updates of None \<Rightarrow> strategy.enabled strat | Some v \<Rightarrow> v)
    \<and> parameters strat'
        = (case upd_parameters updates of None \<Rightarrow> parameters strat | Some v \<Rightarrow> v)
    \<and> performance strat'
        = (case upd_performance updates of None \<Rightarrow> performance strat | Some v \<Rightarrow> v)
    \<and> lastSignal strat'
        = (case upd_lastSignal updates of None \<Rightarrow> lastSignal strat | Some v \<Rightarrow> Some v)
    \<and> (\<forall>k. k \<noteq> strategyId \<longrightarrow>
          map_of (strategies (snd (putStrategy st strategyId updates))) k
            = map_of (strategies st) k)
    \<and> map fst (strategies (snd (putStrategy st strategyId updates)))
        = map fst (strategies st)"
proof -
  let ?st' = "snd (putStrategy st strategyId updates)"
  have reg: "strategies ?st' = strategies (modifyStrategy st strategyId (\<lambda>s. assign s updates))"
    using assms by (simp add: putStrategy_def Let_def)
  have stored: "map_of (strategies ?st') strategyId = Some (assign strat updates)"
    using assms by (simp add: reg strategies_modifyStrategy)
  have sent: "fst (putStrategy st strategyId updates) = Some (assign strat updates)"
    using assms by (simp add: putStrategy_def Let_def)
  have others: "\<forall>k. k \<noteq> strategyId \<longrightarrow> map_of (strategies ?st') k = map_of (strategies st) k"
    by (simp add: reg strategies_modifyStrategy)
  have keys: "map fst (strategies ?st') = map fst (strategies st)"
    by (simp add: reg keys_modifyStrategy)
  have fields:
    "id' (assign strat updates) = (case upd_id updates of None \<Rightarrow> id' strat | Some v \<Rightarrow> v)"
    "name (assign strat updates) = (case upd_name updates of None \<Rightarrow> name strat | Some v \<Rightarrow> v)"
    "type (assign strat updates) = (case upd_type updates of None \<Rightarrow> type strat | Some v \<Rightarrow> v)"
    "strategy.symbol (assign strat updates)
       = (case upd_symbol updates of None \<Rightarrow> strategy.symbol strat | Some v \<Rightarrow> v)"
    "strategy.enabled (assign strat updates)
       = (case upd_enabled updates of None \<Rightarrow> strategy.enabled strat | Some v \<Rightarrow> v)"
    "parameters (assign strat updates)
       = (case upd_parameters updates of None \<Rightarrow> parameters strat | Some v \<Rightarrow> v)"
    "performance (assign strat updates)
       = (case upd_performance updates of None \<Rightarrow> performance strat | Some v \<Rightarrow> v)"
    "lastSignal (assign strat updates)
       = (case upd_lastSignal updates of None \<Rightarrow> lastSignal strat | Some v \<Rightarrow> Some v)"
    by (simp_all add: assign_def split: option.splits)
  show ?thesis
    using stored sent others keys fields by blast
qed

lemma default_rsi: "map_of (strategies initialState) ''rsi_oversold_1'' = Some (defaultStrategies ! 1)"
  by (simp add: initialState_def defaultStrategies_def)

theorem put_strategy_merge_witness:
  "map_of (strategies initialState) ''rsi_oversold_1'' = Some (defaultStrategies ! 1)
   \<and> (\<exists>strat'.
        map_of (strategies (snd (putStrategy initialState ''rsi_oversold_1'' enableUpdate)))
          ''rsi_oversold_1'' = Some strat'
      \<and> strategy.enabled strat'
      \<and> name strat' = ''RSI Oversold BANKNIFTY''
      \<and> parameters strat' = parameters (defaultStrategies ! 1)
      \<and> map_of (strategies (snd (putStrategy initialState ''rsi_oversold_1'' enableUpdate)))
          ''sma_trend_1'' = Some (defaultStrategies ! 2))"
proof -
  have other: "map_of (strategies initialState) ''sma_trend_1'' = Some (defaultStrategies ! 2)"
    by (simp add: initialState_def defaultStrategies_def)
  have nm: "name (defaultStrategies ! 1) = ''RSI Oversold BANKNIFTY''"
    by (simp add: defaultStrategies_def)
  have ne: "''sma_trend_1'' \<noteq> ''rsi_oversold_1''" by simp
  from put_strategy_merge [OF default_rsi, of enableUpdate]
  obtain strat' where
      s: "map_of (strategies (snd (putStrategy initialState ''rsi_oversold_1'' enableUpdate)))
            ''rsi_oversold_1'' = Some strat'"
      and e: "strategy.enabled strat' = (case upd_enabled enableUpdate of
                 None \<Rightarrow> strategy.enabled (defaultStrategies ! 1) | Some v \<Rightarrow> v)"
      and n: "name strat' = (case upd_name enableUpdate of
                 None \<Rightarrow> name (defaultStrategies ! 1) | Some v \<Rightarrow> v)"
      and p: "parameters strat' = (case upd_parameters enableUpdate of
                 None \<Rightarrow> parameters (defaultStrategies ! 1) | Some v \<Rightarrow> v)"
      and o: "\<forall>k. k \<noteq> ''rsi_oversold_1'' \<longrightarrow>
          map_of (strategies (snd (putStrategy initialState ''rsi_oversold_1'' enableUpdate))) k
            = map_of (strategies initialState) k"
    by blast
  have "strategy.enabled strat'" using e by (simp add: enableUpdate_def noUpdates_def)
  moreover have "name strat' = ''RSI Oversold BANKNIFTY''"
    using n nm by (simp add: enableUpdate_def noUpdates_def)
  moreover have "parameters strat' = parameters (defaultStrategies ! 1)"
    using p by (simp add: enableUpdate_def noUpdates_def)
  moreover have "map_of (strategies (snd (putStrategy initialState ''rsi_oversold_1'' enableUpdate)))
          ''sma_trend_1'' = Some (defaultStrategies ! 2)"
    using o ne other by simp
  ultimately show ?thesis using s default_rsi by blast
qed

section \<open>Properties of the live engine\<close>

lemma vote_rsi_bounds:
  "buySignals (vote_rsi strat ind v) \<le> buySignals v + 1
   \<and> sellSignals (vote_rsi strat ind v) \<le> sellSignals v + 1"
  by (simp add: vote_rsi_def)

lemma vote_ema_bounds:
  "buySignals (vote_ema strat ind v) \<le> buySignals v + 1
   \<and> sellSignals (vote_ema strat ind v) \<le> sellSignals v + 1"
  by (simp add: vote_ema_def)

lemma vote_volume_bounds:
  "buySignals (vote_volume strat ind v) \<le> buySignals v + 1
   \<and> sellSignals (vote_volume strat ind v) \<le> sellSignals v + 1"
  by (simp add: vote_volume_def Let_def)

lemma vote_bollinger_bounds:
  "buySignals (vote_bollinger strat p ind v) \<le> buySignals v + 1
   \<and> sellSignals (vote_bollinger strat p ind v) \<le> sellSignals v + 1"
  by (simp add: vote_bollinger_def)

lemma vote_macd_bounds:
  "buySignals (vote_macd ind v) \<le> buySignals v + 1
   \<and> sellSignals (vote_macd ind v) \<le> sellSignals v + 1"
  by (simp add: vote_macd_def)

lemma countVotes_bounds:
  "buySignals (countVotes strat p ind) \<le> 5 \<and> sellSignals (countVotes strat p ind) \<le> 5"
proof -
  let ?v0 = "\<lparr>buySignals = 0, sellSignals = 0, reasons = []\<rparr>"
  let ?v1 = "vote_rsi strat ind ?v0"
  let ?v2 = "vote_ema strat ind ?v1"
  let ?v3 = "vote_volume strat ind ?v2"
  let ?v4 = "vote_bollinger strat p ind ?v3"
  have b1: "buySignals ?v1 \<le> 1 \<and> sellSignals ?v1 \<le> 1"
    using vote_rsi_bounds[of strat ind ?v0] by simp
  have b2: "buySignals ?v2 \<le> 2 \<and> sellSignals ?v2 \<le> 2"
    using vote_ema_bounds[of strat ind ?v1] b1 by linarith
  have b3: "buySignals ?v3 \<le> 3 \<and> sellSignals ?v3 \<le> 3"
    using vote_volume_bounds[of strat ind ?v2] b2 by linarith
  have b4: "buySignals ?v4 \<le> 4 \<and> sellSignals ?v4 \<le> 4"
    using vote_bollinger_bounds[of strat p ind ?v3] b3 by linarith
  show ?thesis
    unfolding countVotes_def
    using vote_macd_bounds[of ind ?v4] b4 by linarith
qed

lemma strength_of_votes:
  assumes "3 \<le> n" and "n \<le> (5::nat)"
  shows "js_min (js_div (Fin (real n)) (Fin 5)) (Fin 1) = Fin (real n / 5)
       \<and> Fin (real n / 5) \<in> {Fin (3 / 5), Fin (4 / 5), Fin 1}
       \<and> js_ge (Fin (real n / 5)) (Fin (6 / 10))
       \<and> \<not> js_lt (Fin (real n / 5)) (Fin (6 / 10))"
proof -
  have "n = 3 \<or> n = 4 \<or> n = 5" using assms by arith
  then show ?thesis
    by (auto simp add: js_min_def js_ge_def js_le_def)
qed

text \<open>
  C10. A signal of \<open>generateSignal\<close> that is not HOLD has a winning side with 3, 4 or
  5 votes and strength that number over 5, so 0.6, 0.8 or 1; it meets the gate of 0.6,
  and the first check of \<open>executeTrade\<close> (HOLD, or strength below 0.6) does not reject
  it.
\<close>

theorem live_signal_strength:
  assumes "sig = generateSignal strats clock symb p ind"
      and "trading_signal.action sig \<noteq> HOLD"
  shows "\<exists>strat n. strats symb = Some strat
      \<and> n = (if trading_signal.action sig = BUY then buySignals (countVotes strat p ind)
              else sellSignals (countVotes strat p ind))
      \<and> 3 \<le> n \<and> n \<le> 5
      \<and> strength sig = Fin (real n / 5)
      \<and> strength sig \<in> {Fin (3 / 5), Fin (4 / 5), Fin 1}
      \<and> js_ge (strength sig) (Fin (6 / 10))
      \<and> \<not> (trading_signal.action sig = HOLD \<or> js_lt (strength sig) (Fin (6 / 10)))"
proof -
  obtain strat where strat: "strats symb = Some strat" and en: "trading_strategy.enabled strat"
    using assms by (auto simp add: generateSignal_def split: option.splits if_splits)
  let ?v = "countVotes strat p ind"
  let ?n = "if trading_signal.action sig = BUY then buySignals ?v else sellSignals ?v"
  have bounds: "buySignals ?v \<le> 5 \<and> sellSignals ?v \<le> 5" by (rule countVotes_bounds)
  have act: "trading_signal.action sig =
      (if buySignals ?v > sellSignals ?v \<and> buySignals ?v \<ge> 3 then BUY
       else if sellSignals ?v > buySignals ?v \<and> sellSignals ?v \<ge> 3 then SELL else HOLD)"
    using strat en by (simp add: assms(1) generateSignal_def Let_def)
  have str: "strength sig =
      (if buySignals ?v > sellSignals ?v \<and> buySignals ?v \<ge> 3
       then js_min (js_div (Fin (real (buySignals ?v))) (Fin 5)) (Fin 1)
       else if sellSignals ?v > buySignals ?v \<and> sellSignals ?v \<ge> 3
       then js_min (js_div (Fin (real (sellSignals ?v))) (Fin 5)) (Fin 1) else Fin 0)"
    using strat en by (simp add: assms(1) generateSignal_def Let_def)
  have n3: "3 \<le> ?n" using act assms(2) by (auto split: if_splits)
  have n5: "?n \<le> 5" using bounds by simp
  have sn: "strength sig = js_min (js_div (Fin (real ?n)) (Fin 5)) (Fin 1)"
    using act str assms(2) by (auto split: if_splits)
  from strength_of_votes[OF n3 n5] sn
  have "strength sig = Fin (real ?n / 5)
      \<and> strength sig \<in> {Fin (3 / 5), Fin (4 / 5), Fin 1}
      \<and> js_ge (strength sig) (Fin (6 / 10))
      \<and> \<not> js_lt (strength sig) (Fin (6 / 10))"
    by simp
  then show ?thesis using strat n3 n5 assms(2) by blast
qed

lemma bullish_votes:
  "countVotes bankniftyStrategy (Fin 19400) bullishIndicators
     = \<lparr>buySignals = 3, sellSignals = 0,
        reasons = [RSI_oversold (Fin 20), EMA_bullish_crossover, High_volume (Fin 2)]\<rparr>"
  by (simp add: countVotes_def vote_rsi_def vote_ema_def vote_volume_def vote_bollinger_def
        vote_macd_def bankniftyStrategy_def bullishIndicators_def js_gt_def Let_def)

lemma bullish_signal:
  "trading_signal.action (generateSignal liveStrategies 0 ''BANKNIFTY'' (Fin 19400)
       bullishIndicators) = BUY"
proof -
  have s: "liveStrategies ''BANKNIFTY'' = Some bankniftyStrategy"
    by (simp add: liveStrategies_def)
  have en: "trading_strategy.enabled bankniftyStrategy"
    by (simp add: bankniftyStrategy_def)
  show ?thesis
    by (simp add: generateSignal_def Let_def s en bullish_votes)
qed

theorem live_signal_strength_witness:
  "trading_signal.action (generateSignal liveStrategies 0 ''BANKNIFTY'' (Fin 19400)
       bullishIndicators) \<noteq> HOLD
   \<and> trading_signal.action (generateSignal liveStrategies 0 ''BANKNIFTY'' (Fin 19400)
       bullishIndicators) = BUY
   \<and> strength (generateSignal liveStrategies 0 ''BANKNIFTY'' (Fin 19400) bullishIndicators)
       = Fin (3 / 5)
   \<and> js_ge (strength (generateSignal liveStrategies 0 ''BANKNIFTY'' (Fin 19400)
       bullishIndicators)) (Fin (6 / 10))"
proof -
  let ?sig = "generateSignal liveStrategies 0 ''BANKNIFTY'' (Fin 19400) bullishIndicators"
  have s: "liveStrategies ''BANKNIFTY'' = Some bankniftyStrategy"
    by (simp add: liveStrategies_def)
  have a: "trading_signal.action ?sig = BUY" by (rule bullish_signal)
  then have ne: "trading_signal.action ?sig \<noteq> HOLD" by simp
  from live_signal_strength [OF refl ne]
  obtain strat n where "liveStrategies ''BANKNIFTY'' = Some strat"
      and "n = (if trading_signal.action ?sig = BUY
                then buySignals (countVotes strat (Fin 19400) bullishIndicators)
                else sellSignals (countVotes strat (Fin 19400) bullishIndicators))"
      and "strength ?sig = Fin (real n / 5)"
      and g: "js_ge (strength ?sig) (Fin (6 / 10))"
    by blast
  then have "strength ?sig = Fin (3 / 5)"
    using a s bullish_votes by simp
  then show ?thesis using a ne g by simp
qed

section \<open>Properties of order execution\<close>

text \<open>
  C3. \<open>executeRealTrade\<close> sends the parent order and nothing else; only when the
  gateway acknowledges it with an order id is the stop-loss and take-profit call put on
  a timer, of 5000 milliseconds, carrying that id. When the timer fires, exactly two
  orders follow: the stop-loss order with price and trigger price
  \<open>P * (1 - stopLoss / 100)\<close> for a BUY entry at \<open>P\<close> and \<open>P * (1 + stopLoss / 100)\<close>
  for a SELL entry, tagged \<open>sl_\<close> and the parent id, then the take-profit order with
  limit price \<open>P * (1 + takeProfit / 100)\<close> for a BUY entry and
  \<open>P * (1 - takeProfit / 100)\<close> for a SELL entry, tagged \<open>tp_\<close> and the parent id;
  both sell after a BUY entry and buy after a SELL entry.
\<close>

theorem derived_orders_after_parent:
  assumes entry: "timed_signal.price sig = Some P"
      and sl: "sl = parameters.stopLoss (parameters strat)"
      and tp: "tp = parameters.takeProfit (parameters strat)"
  shows "server_state.placed (snd (executeRealTrade e st key strat sig))
           = server_state.placed st @ [entryOrder e strat sig P]
      \<and> (case placeOrderDirect e (length (server_state.placed st)) (entryOrder e strat sig P) of
            Success oid \<Rightarrow>
              fst (executeRealTrade e st key strat sig) = Executed oid
              \<and> timers (snd (executeRealTrade e st key strat sig))
                  = timers st @ [\<lparr>delay = 5000, strategyKey = key, entrySignal = sig,
                                   parentOrderId = oid\<rparr>]
          | Failure err \<Rightarrow>
              timers (snd (executeRealTrade e st key strat sig)) = timers st)
      \<and> (timers st = \<lparr>delay = d, strategyKey = key, entrySignal = sig,
                        parentOrderId = parentId\<rparr> # ts
          \<and> map_of (strategies st) key = Some strat
          \<longrightarrow> fireTimer e st
                = scheduleStopLossAndTakeProfit e (st\<lparr>timers := ts\<rparr>) strat sig parentId)
      \<and> server_state.placed (scheduleStopLossAndTakeProfit e st strat sig parentId)
           = server_state.placed st
               @ [stopLossOrder strat sig parentId, takeProfitOrder strat sig parentId]
      \<and> tag (stopLossOrder strat sig parentId) = ''sl_'' @ parentId
      \<and> tag (takeProfitOrder strat sig parentId) = ''tp_'' @ parentId
      \<and> (signal.action sig = BUY \<longrightarrow>
            order.price (stopLossOrder strat sig parentId)
              = js_mul P (js_sub (Fin 1) (js_div sl (Fin 100)))
          \<and> trigger_price (stopLossOrder strat sig parentId)
              = Some (js_mul P (js_sub (Fin 1) (js_div sl (Fin 100))))
          \<and> transaction_type (stopLossOrder strat sig parentId) = SELL
          \<and> order.price (takeProfitOrder strat sig parentId)
              = js_mul P (js_add (Fin 1) (js_div tp (Fin 100)))
          \<and> transaction_type (takeProfitOrder strat sig parentId) = SELL)
      \<and> (signal.action sig = SELL \<longrightarrow>
            order.price (stopLossOrder strat sig parentId)
              = js_mul P (js_add (Fin 1) (js_div sl (Fin 100)))
          \<and> trigger_price (stopLossOrder strat sig parentId)
              = Some (js_mul P (js_add (Fin 1) (js_div sl (Fin 100))))
          \<and> transaction_type (stopLossOrder strat sig parentId) = BUY
          \<and> order.price (takeProfitOrder strat sig parentId)
              = js_mul P (js_sub (Fin 1) (js_div tp (Fin 100)))
          \<and> transaction_type (takeProfitOrder strat sig parentId) = BUY)"
proof -
  have parent: "server_state.placed (snd (executeRealTrade e st key strat sig))
           = server_state.placed st @ [entryOrder e strat sig P]"
    using entry by (simp add: executeRealTrade_def Let_def split: response.splits)
  have ack: "(case placeOrderDirect e (length (server_state.placed st)) (entryOrder e strat sig P) of
            Success oid \<Rightarrow>
              fst (executeRealTrade e st key strat sig) = Executed oid
              \<and> timers (snd (executeRealTrade e st key strat sig))
                  = timers st @ [\<lparr>delay = 5000, strategyKey = key, entrySignal = sig,
                                   parentOrderId = oid\<rparr>]
          | Failure err \<Rightarrow>
              timers (snd (executeRealTrade e st key strat sig)) = timers st)"
    using entry by (simp add: executeRealTrade_def Let_def split: response.splits)
  have fire: "timers st = \<lparr>delay = d, strategyKey = key, entrySignal = sig,
                        parentOrderId = parentId\<rparr> # ts
          \<and> map_of (strategies st) key = Some strat
          \<longrightarrow> fireTimer e st
                = scheduleStopLossAndTakeProfit e (st\<lparr>timers := ts\<rparr>) strat sig parentId"
    by (simp add: fireTimer_def)
  have children: "server_state.placed (scheduleStopLossAndTakeProfit e st strat sig parentId)
           = server_state.placed st
               @ [stopLossOrder strat sig parentId, takeProfitOrder strat sig parentId]"
    by (simp add: scheduleStopLossAndTakeProfit_def Let_def)
  have tags: "tag (stopLossOrder strat sig parentId) = ''sl_'' @ parentId"
      "tag (takeProfitOrder strat sig parentId) = ''tp_'' @ parentId"
    by (simp_all add: stopLossOrder_def takeProfitOrder_def)
  have buy: "signal.action sig = BUY \<longrightarrow>
            order.price (stopLossOrder strat sig parentId)
              = js_mul P (js_sub (Fin 1) (js_div sl (Fin 100)))
          \<and> trigger_price (stopLossOrder strat sig parentId)
              = Some (js_mul P (js_sub (Fin 1) (js_div sl (Fin 100))))
          \<and> transaction_type (stopLossOrder strat sig parentId) = SELL
          \<and> order.price (takeProfitOrder strat sig parentId)
              = js_mul P (js_add (Fin 1) (js_div tp (Fin 100)))
          \<and> transaction_type (takeProfitOrder strat sig parentId) = SELL"
    using entry
    by (simp add: stopLossOrder_def takeProfitOrder_def stopLossPrice_def takeProfitPrice_def
          to_number_def sl tp Let_def)
  have sell: "signal.action sig = SELL \<longrightarrow>
            order.price (stopLossOrder strat sig parentId)
              = js_mul P (js_add (Fin 1) (js_div sl (Fin 100)))
          \<and> trigger_price (stopLossOrder strat sig parentId)
              = Some (js_mul P (js_add (Fin 1) (js_div sl (Fin 100))))
          \<and> transaction_type (stopLossOrder strat sig parentId) = BUY
          \<and> order.price (takeProfitOrder strat sig parentId)
              = js_mul P (js_sub (Fin 1) (js_div tp (Fin 100)))
          \<and> transaction_type (takeProfitOrder strat sig parentId) = BUY"
    using entry
    by (simp add: stopLossOrder_def takeProfitOrder_def stopLossPrice_def takeProfitPrice_def
          to_number_def sl tp Let_def)
  show ?thesis
    using parent ack fire children tags buy sell by (intro conjI)
qed

lemma default_ema_risk:
  "parameters.stopLoss (parameters (defaultStrategies ! 0)) = Fin 2
   \<and> parameters.takeProfit (parameters (defaultStrategies ! 0)) = Fin 4"
  by (simp add: defaultStrategies_def noParameters_def)

lemma afterEntry_timers:
  "timers afterEntryState
     = [\<lparr>delay = 5000, strategyKey = ''ema_crossover_1'', entrySignal = buySignal,
         parentOrderId = ''ORD1''\<rparr>]
   \<and> server_state.placed afterEntryState
       = [entryOrder acceptingEnv (defaultStrategies ! 0) buySignal (Fin 100)]
   \<and> map_of (strategies afterEntryState) ''ema_crossover_1'' = Some (defaultStrategies ! 0)"
  by (simp add: afterEntryState_def executeRealTrade_def Let_def buySignal_def
        acceptingEnv_def initialState_def defaultStrategies_def)

theorem derived_orders_after_parent_witness:
  "timed_signal.price buySignal = Some (Fin 100) \<and> signal.action buySignal = BUY
   \<and> timed_signal.price sellSignal = Some (Fin 100) \<and> signal.action sellSignal = SELL
   \<and> timers afterEntryState
       = [\<lparr>delay = 5000, strategyKey = ''ema_crossover_1'', entrySignal = buySignal,
           parentOrderId = ''ORD1''\<rparr>]
   \<and> map_of (strategies afterEntryState) ''ema_crossover_1'' = Some (defaultStrategies ! 0)
   \<and> server_state.placed (fireTimer acceptingEnv afterEntryState)
       = [entryOrder acceptingEnv (defaultStrategies ! 0) buySignal (Fin 100),
          stopLossOrder (defaultStrategies ! 0) buySignal ''ORD1'',
          takeProfitOrder (defaultStrategies ! 0) buySignal ''ORD1'']
   \<and> order.price (stopLossOrder (defaultStrategies ! 0) buySignal ''ORD1'') = Fin 98
   \<and> trigger_price (stopLossOrder (defaultStrategies ! 0) buySignal ''ORD1'') = Some (Fin 98)
   \<and> transaction_type (stopLossOrder (defaultStrategies ! 0) buySignal ''ORD1'') = SELL
   \<and> tag (stopLossOrder (defaultStrategies ! 0) buySignal ''ORD1'') = ''sl_ORD1''
   \<and> order.price (takeProfitOrder (defaultStrategies ! 0) buySignal ''ORD1'') = Fin 104
   \<and> transaction_type (takeProfitOrder (defaultStrategies ! 0) buySignal ''ORD1'') = SELL
   \<and> tag (takeProfitOrder (defaultStrategies ! 0) buySignal ''ORD1'') = ''tp_ORD1''
   \<and> order.price (stopLossOrder (defaultStrategies ! 0) sellSignal ''ORD1'') = Fin 102
   \<and> transaction_type (stopLossOrder (defaultStrategies ! 0) sellSignal ''ORD1'') = BUY
   \<and> order.price (takeProfitOrder (defaultStrategies ! 0) sellSignal ''ORD1'') = Fin 96
   \<and> transaction_type (takeProfitOrder (defaultStrategies ! 0) sellSignal ''ORD1'') = BUY"
proof -
  have pb: "timed_signal.price buySignal = Some (Fin 100)" and ab: "signal.action buySignal = BUY"
    by (simp_all add: buySignal_def)
  have ps: "timed_signal.price sellSignal = Some (Fin 100)"
    and as: "signal.action sellSignal = SELL"
    by (simp_all add: sellSignal_def)
  note r = default_ema_risk
  have sl: "Fin 2 = parameters.stopLoss (parameters (defaultStrategies ! 0))"
    and tp: "Fin 4 = parameters.takeProfit (parameters (defaultStrategies ! 0))"
    using r by simp_all
  note buy = derived_orders_after_parent [OF pb sl tp, of acceptingEnv afterEntryState
      "''ema_crossover_1''" 5000 "''ORD1''" "[]"]
  note sell = derived_orders_after_parent [OF ps sl tp, of acceptingEnv afterEntryState
      "''ema_crossover_1''" 5000 "''ORD1''" "[]"]
  have placed_nil: "server_state.placed (afterEntryState\<lparr>timers := []\<rparr>)
      = server_state.placed afterEntryState" by simp
  have fired: "server_state.placed (fireTimer acceptingEnv afterEntryState)
       = [entryOrder acceptingEnv (defaultStrategies ! 0) buySignal (Fin 100),
          stopLossOrder (defaultStrategies ! 0) buySignal ''ORD1'',
          takeProfitOrder (defaultStrategies ! 0) buySignal ''ORD1'']"
    using buy afterEntry_timers
      derived_orders_after_parent [OF pb sl tp, of acceptingEnv
        "afterEntryState\<lparr>timers := []\<rparr>" "''ema_crossover_1''" 5000 "''ORD1''" "[]"]
    by (simp add: placed_nil)
  have prices_buy:
    "order.price (stopLossOrder (defaultStrategies ! 0) buySignal ''ORD1'') = Fin 98
   \<and> trigger_price (stopLossOrder (defaultStrategies ! 0) buySignal ''ORD1'') = Some (Fin 98)
   \<and> transaction_type (stopLossOrder (defaultStrategies ! 0) buySignal ''ORD1'') = SELL
   \<and> tag (stopLossOrder (defaultStrategies ! 0) buySignal ''ORD1'') = ''sl_ORD1''
   \<and> order.price (takeProfitOrder (defaultStrategies ! 0) buySignal ''ORD1'') = Fin 104
   \<and> transaction_type (takeProfitOrder (defaultStrategies ! 0) buySignal ''ORD1'') = SELL
   \<and> tag (takeProfitOrder (defaultStrategies ! 0) buySignal ''ORD1'') = ''tp_ORD1''"
    using buy ab by (simp add: js_sub_def)
  have prices_sell:
    "order.price (stopLossOrder (defaultStrategies ! 0) sellSignal ''ORD1'') = Fin 102
   \<and> transaction_type (stopLossOrder (defaultStrategies ! 0) sellSignal ''ORD1'') = BUY
   \<and> order.price (takeProfitOrder (defaultStrategies ! 0) sellSignal ''ORD1'') = Fin 96
   \<and> transaction_type (takeProfitOrder (defaultStrategies ! 0) sellSignal ''ORD1'') = BUY"
    using sell as by (simp add: js_sub_def)
  show ?thesis
    using pb ab ps as afterEntry_timers fired prices_buy prices_sell by simp
qed

section \<open>Properties of the trading loops\<close>

lemma evaluateStrategy_not_hold:
  "evaluateStrategy e st strat = Inr (Some sig) \<Longrightarrow> signal.action sig \<noteq> HOLD"
  by (auto simp add: evaluateStrategy_def Let_def
      split: option.splits if_splits sum.splits)

lemma placed_modifyStrategy [simp]:
  "server_state.placed (modifyStrategy st key f) = server_state.placed st"
  by (simp add: modifyStrategy_def)

lemma placed_addToHistory [simp]:
  "server_state.placed (addToHistory st symb p) = server_state.placed st"
  by (simp add: addToHistory_def Let_def)

lemma placed_afterQuote [simp]:
  "server_state.placed (afterQuote st strat md) = server_state.placed st"
  by (simp add: afterQuote_def Let_def)

lemma placed_fetchMarketData [simp]:
  "server_state.placed (snd (fetchMarketData e st symb)) = server_state.placed st"
  by (simp add: fetchMarketData_def Let_def split: option.splits)

lemma placed_executeRealTrade:
  "server_state.placed (snd (executeRealTrade e st key strat sig))
     = server_state.placed st
         @ (case timed_signal.price sig of None \<Rightarrow> [] | Some p \<Rightarrow> [entryOrder e strat sig p])"
  by (simp add: executeRealTrade_def Let_def split: option.splits response.splits)

lemma entryOrder_fields:
  "transaction_type (entryOrder e strat sig p) = signal.action sig
   \<and> order.quantity (entryOrder e strat sig p) = parameters.quantity (parameters strat)"
  by (simp add: entryOrder_def)

lemma placed_actOnSignal:
  "server_state.placed (snd (actOnSignal e st key strat sig))
     = server_state.placed st
         @ (case timed_signal.price sig of None \<Rightarrow> [] | Some p \<Rightarrow> [entryOrder e strat sig p])"
proof (cases "timed_signal.price sig")
  case None
  then show ?thesis by (simp add: actOnSignal_def Let_def)
next
  case (Some p)
  let ?st3 = "modifyStrategy st key (\<lambda>s. s\<lparr>lastSignal := Some sig\<rparr>)"
  let ?pushed = "server_state.logs ?st3 @
       [SignalLog (name strat) (signal.action sig) p (confidence sig)]"
  let ?st4 = "?st3\<lparr>server_state.logs := (if length ?pushed > 100 then tl ?pushed else ?pushed)\<rparr>"
  obtain tr st5 where ex: "executeRealTrade e ?st4 key strat sig = (tr, st5)"
    by (cases "executeRealTrade e ?st4 key strat sig") auto
  have p5: "server_state.placed st5 = server_state.placed st @ [entryOrder e strat sig p]"
    using placed_executeRealTrade[of e ?st4 key strat sig] ex Some by simp
  show ?thesis
    using Some ex p5 by (cases tr) (simp_all add: actOnSignal_def Let_def)
qed

lemma placed_strategyBody:
  "server_state.placed (snd (strategyBody e st key strat md))
     = server_state.placed st @ bodyOrders e st strat md"
proof (cases "evaluateStrategy e (afterQuote st strat md) strat")
  case (Inl err)
  then show ?thesis by (simp add: strategyBody_def bodyOrders_def Let_def)
next
  case (Inr r)
  show ?thesis
  proof (cases r)
    case None
    then show ?thesis using Inr by (simp add: strategyBody_def bodyOrders_def Let_def)
  next
    case (Some sig)
    then show ?thesis using Inr
      by (simp add: strategyBody_def bodyOrders_def Let_def placed_actOnSignal)
  qed
qed

lemma bodyOrders_gated:
  assumes "ord \<in> set (bodyOrders e st strat md)"
  shows "\<exists>sig. evaluateStrategy e (afterQuote st strat md) strat = Inr (Some sig)
          \<and> signal.action sig \<noteq> HOLD
          \<and> js_ge (confidence sig) (Fin 70)
          \<and> transaction_type ord = signal.action sig
          \<and> order.quantity ord = parameters.quantity (parameters strat)"
proof (cases "evaluateStrategy e (afterQuote st strat md) strat")
  case (Inl err)
  then show ?thesis using assms by (simp add: bodyOrders_def)
next
  case (Inr r)
  show ?thesis
  proof (cases r)
    case None
    then show ?thesis using assms Inr by (simp add: bodyOrders_def)
  next
    case (Some sig)
    have ev: "evaluateStrategy e (afterQuote st strat md) strat = Inr (Some sig)"
      using Inr Some by simp
    have g: "js_ge (confidence sig) (Fin 70)"
    proof (rule ccontr)
      assume "\<not> js_ge (confidence sig) (Fin 70)"
      then have "bodyOrders e st strat md = []" using ev by (simp add: bodyOrders_def)
      then show False using assms by simp
    qed
    have "\<exists>p. ord = entryOrder e strat sig p"
    proof (cases "timed_signal.price sig")
      case None
      then show ?thesis using assms ev g by (simp add: bodyOrders_def)
    next
      case (Some p)
      then have "ord = entryOrder e strat sig p"
        using assms ev g by (simp add: bodyOrders_def)
      then show ?thesis by (rule exI)
    qed
    then obtain p where oe: "ord = entryOrder e strat sig p" by (rule exE)
    have nh: "signal.action sig \<noteq> HOLD" using ev by (rule evaluateStrategy_not_hold)
    have f: "transaction_type ord = signal.action sig
        \<and> order.quantity ord = parameters.quantity (parameters strat)"
      using entryOrder_fields[of e strat sig p] oe by simp
    show ?thesis
      by (rule exI[of _ sig]) (simp add: ev g nh f)
  qed
qed

lemma strategies_fetchMarketData [simp]:
  "strategies (snd (fetchMarketData e st symb)) = strategies st"
  by (simp add: fetchMarketData_def Let_def split: option.splits)

lemma strategies_afterQuote [simp]:
  "strategies (afterQuote st strat md) = strategies st"
  by (simp add: afterQuote_def addToHistory_def Let_def)

text \<open>What one turn of the loop sends to the gateway.\<close>

lemma placed_processStrategy:
  "\<exists>new. server_state.placed (processStrategy e st key) = server_state.placed st @ new
     \<and> (\<forall>ord \<in> set new. gatedTurn e st key ord)"
proof (cases "map_of (strategies st) key")
  case None
  then show ?thesis by (simp add: processStrategy_def)
next
  case (Some strat)
  obtain r st0 where f: "fetchMarketData e st (strategy.symbol strat) = (r, st0)"
    by (cases "fetchMarketData e st (strategy.symbol strat)") auto
  have p0: "server_state.placed st0 = server_state.placed st"
    using placed_fetchMarketData[of e st "strategy.symbol strat"] f by simp
  show ?thesis
  proof (cases r)
    case None
    then show ?thesis using Some f p0 by (simp add: processStrategy_def)
  next
    case (Some md)
    obtain err st1 where b: "strategyBody e st0 key strat md = (err, st1)"
      by (cases "strategyBody e st0 key strat md") auto
    let ?new = "bodyOrders e st0 strat md"
    have p1: "server_state.placed st1 = server_state.placed st @ ?new"
      using placed_strategyBody[of e st0 key strat md] b p0 by simp
    have res: "server_state.placed (processStrategy e st key) = server_state.placed st1"
      using \<open>map_of (strategies st) key = Some strat\<close> f Some b
      by (cases err) (simp_all add: processStrategy_def)
    have just: "\<forall>ord \<in> set ?new. gatedTurn e st key ord"
    proof
      fix ord assume "ord \<in> set ?new"
      from bodyOrders_gated[OF this] obtain sig where
        ev: "evaluateStrategy e (afterQuote st0 strat md) strat = Inr (Some sig)"
        and g: "signal.action sig \<noteq> HOLD \<and> js_ge (confidence sig) (Fin 70)
          \<and> transaction_type ord = signal.action sig
          \<and> order.quantity ord = parameters.quantity (parameters strat)"
        by blast
      have "turnSignal e st key = Some (strat, sig)"
        using \<open>map_of (strategies st) key = Some strat\<close> f Some ev
        by (simp add: turnSignal_def)
      then show "gatedTurn e st key ord" using g by (simp add: gatedTurn_def)
    qed
    have "server_state.placed (processStrategy e st key) = server_state.placed st @ ?new"
      using res p1 by simp
    then show ?thesis using just by (intro exI[of _ ?new] conjI)
  qed
qed

text \<open>
  What a run of turns sends: every order is a gated entry of one of the turns, in the
  state the run had reached there.
\<close>

lemma gatedEntry_snoc:
  "gatedEntry e st ks ord \<Longrightarrow> gatedEntry e st (ks @ [k]) ord"
proof -
  assume "gatedEntry e st ks ord"
  then obtain i where i: "i < length ks"
      and g: "gatedTurn e (cycleState e st ks i) (ks ! i) ord"
    by (auto simp add: gatedEntry_def)
  have "cycleState e st (ks @ [k]) i = cycleState e st ks i"
    using i by (simp add: cycleState_def)
  moreover have "(ks @ [k]) ! i = ks ! i" using i by (simp add: nth_append)
  ultimately have "gatedTurn e (cycleState e st (ks @ [k]) i) ((ks @ [k]) ! i) ord"
    using g by simp
  moreover have "i < length (ks @ [k])" using i by simp
  ultimately show ?thesis unfolding gatedEntry_def by blast
qed

lemma gatedEntry_last:
  "gatedTurn e (foldl (processStrategy e) st ks) k ord \<Longrightarrow> gatedEntry e st (ks @ [k]) ord"
proof -
  assume g: "gatedTurn e (foldl (processStrategy e) st ks) k ord"
  have "cycleState e st (ks @ [k]) (length ks) = foldl (processStrategy e) st ks"
    by (simp add: cycleState_def)
  moreover have "(ks @ [k]) ! length ks = k" by simp
  ultimately have "gatedTurn e (cycleState e st (ks @ [k]) (length ks))
      ((ks @ [k]) ! length ks) ord"
    using g by simp
  moreover have "length ks < length (ks @ [k])" by simp
  ultimately show ?thesis unfolding gatedEntry_def by blast
qed

lemma placed_cycle:
  "\<exists>new. server_state.placed (foldl (processStrategy e) st keys) = server_state.placed st @ new
     \<and> (\<forall>ord \<in> set new. gatedEntry e st keys ord)"
proof (induction keys rule: rev_induct)
  case Nil
  then show ?case by simp
next
  case (snoc k ks)
  let ?mid = "foldl (processStrategy e) st ks"
  obtain new1 where n1: "server_state.placed ?mid = server_state.placed st @ new1"
    and j1: "\<forall>ord \<in> set new1. gatedEntry e st ks ord"
    using snoc.IH by blast
  obtain new2 where n2: "server_state.placed (processStrategy e ?mid k)
        = server_state.placed ?mid @ new2"
    and j2: "\<forall>ord \<in> set new2. gatedTurn e ?mid k ord"
    using placed_processStrategy[of e ?mid k] by blast
  have a: "server_state.placed (foldl (processStrategy e) st (ks @ [k]))
      = server_state.placed st @ (new1 @ new2)"
    using n1 n2 by simp
  have b: "\<forall>ord \<in> set (new1 @ new2). gatedEntry e st (ks @ [k]) ord"
    using j1 j2 gatedEntry_snoc[of e st ks _ k] gatedEntry_last[of e st ks k] by auto
  show ?case using a b by (intro exI[of _ "new1 @ new2"] conjI)
qed

lemma placed_addLog [simp]: "live_state.placed (addLog st m l) = live_state.placed st"
  by (simp add: addLog_def)

lemma placed_placeTrade:
  "live_state.placed (placeTrade e strat st sig) = live_state.placed st @ [liveOrder e strat sig]"
  by (simp add: placeTrade_def Let_def split: sum.splits response.splits)

lemma liveOrder_fields:
  "transaction_type (liveOrder e strat sig) = trading_signal.action sig
   \<and> order.quantity (liveOrder e strat sig) = trading_strategy.quantity strat"
  by (simp add: liveOrder_def)

lemma placed_executeTrade:
  "live_state.placed (executeTrade e strats st sig) = live_state.placed st
   \<or> (\<exists>strat. strats (trading_signal.symbol sig) = Some strat
        \<and> trading_signal.action sig \<noteq> HOLD
        \<and> \<not> js_lt (strength sig) (Fin (6 / 10))
        \<and> live_state.placed (executeTrade e strats st sig)
            = live_state.placed st @ [liveOrder e strat sig])"
  by (auto simp add: executeTrade_def Let_def placed_placeTrade split: option.splits)

lemma symbol_generateSignal [simp]:
  "trading_signal.symbol (generateSignal strats clock symb p ind) = symb"
  by (simp add: generateSignal_def Let_def split: option.splits prod.splits)

lemma placed_handleSignal:
  assumes "sig = generateSignal strats (live_env.now e) symb p ind"
  shows "\<exists>new. live_state.placed (engine (handleSignal e strats st symb p ind))
             = live_state.placed (engine st) @ new
     \<and> (\<forall>ord \<in> set new. gatedLiveEntry strats sig ord)"
proof (cases "trading_signal.action sig \<noteq> HOLD \<and> js_ge (strength sig) (Fin (6 / 10))")
  case False
  then have "live_state.placed (engine (handleSignal e strats st symb p ind))
             = live_state.placed (engine st) @ []"
    using assms by (auto simp add: handleSignal_def Let_def)
  then show ?thesis by (intro exI[of _ "[]"] conjI) simp_all
next
  case True
  let ?st1 = "addLog (engine st) (SignalFound (trading_signal.action sig) symb
                             (trading_signal.conditions sig)) warning"
  have h: "engine (handleSignal e strats st symb p ind) = executeTrade e strats ?st1 sig"
    using True assms by (simp add: handleSignal_def Let_def)
  from placed_executeTrade[of e strats ?st1 sig]
  show ?thesis
  proof
    assume "live_state.placed (executeTrade e strats ?st1 sig) = live_state.placed ?st1"
    then have "live_state.placed (engine (handleSignal e strats st symb p ind))
             = live_state.placed (engine st) @ []"
      using h by simp
    then show ?thesis by (intro exI[of _ "[]"] conjI) simp_all
  next
    assume "\<exists>strat. strats (trading_signal.symbol sig) = Some strat
        \<and> trading_signal.action sig \<noteq> HOLD
        \<and> \<not> js_lt (strength sig) (Fin (6 / 10))
        \<and> live_state.placed (executeTrade e strats ?st1 sig)
            = live_state.placed ?st1 @ [liveOrder e strat sig]"
    then obtain strat where s: "strats (trading_signal.symbol sig) = Some strat"
      and pl: "live_state.placed (executeTrade e strats ?st1 sig)
            = live_state.placed ?st1 @ [liveOrder e strat sig]"
      by blast
    have a: "live_state.placed (engine (handleSignal e strats st symb p ind))
             = live_state.placed (engine st) @ [liveOrder e strat sig]"
      using h pl by simp
    have b: "\<forall>ord \<in> set [liveOrder e strat sig]. gatedLiveEntry strats sig ord"
      using s True liveOrder_fields[of e strat sig] by simp
    show ?thesis using a b by (intro exI[of _ "[liveOrder e strat sig]"] conjI)
  qed
qed

text \<open>
  C2. Every order that a cycle of \<open>executeAutoTrading\<close> sends to the gateway is the
  entry of one of its turns, for an enabled strategy: in the state the cycle had reached
  at that turn, with the quote recorded, \<open>evaluateStrategy\<close> returned for that
  strategy a signal that is not HOLD and has confidence at least 70. Every order that
  the live loop sends for a generated signal answers a signal that is not HOLD and has
  strength at least 0.6. In both, the order's \<open>transaction_type\<close> is the action of
  that signal and its quantity the one configured for that strategy.
\<close>

theorem entry_orders_gated:
  assumes "sig = generateSignal strats (live_env.now le) symb p ind"
  shows "(\<exists>new. server_state.placed (executeAutoTrading e st) = server_state.placed st @ new
            \<and> (\<forall>ord \<in> set new. gatedEntry e st (activeStrategies st) ord))
       \<and> (\<exists>new. live_state.placed (engine (handleSignal le strats lst symb p ind))
                  = live_state.placed (engine lst) @ new
            \<and> (\<forall>ord \<in> set new. gatedLiveEntry strats sig ord))"
proof
  show "\<exists>new. server_state.placed (executeAutoTrading e st) = server_state.placed st @ new
            \<and> (\<forall>ord \<in> set new. gatedEntry e st (activeStrategies st) ord)"
  proof (cases "autoTradingEnabled st")
    case False
    then have "server_state.placed (executeAutoTrading e st) = server_state.placed st @ []"
      by (simp add: executeAutoTrading_def)
    then show ?thesis by (intro exI[of _ "[]"] conjI) simp_all
  next
    case True
    then have "executeAutoTrading e st = foldl (processStrategy e) st (activeStrategies st)"
      by (simp add: executeAutoTrading_def)
    then show ?thesis
      using placed_cycle[of e st "activeStrategies st"] by simp
  qed
  show "\<exists>new. live_state.placed (engine (handleSignal le strats lst symb p ind))
                  = live_state.placed (engine lst) @ new
            \<and> (\<forall>ord \<in> set new. gatedLiveEntry strats sig ord)"
    using assms by (rule placed_handleSignal)
qed

section \<open>Failure isolation in the auto-trading cycle\<close>

lemma registrySymbols_modifyStrategy:
  assumes "\<And>s. strategy.symbol (f s) = strategy.symbol s"
  shows "registrySymbols (modifyStrategy st key f) = registrySymbols st"
  by (simp add: registrySymbols_def modifyStrategy_def assms case_prod_beta comp_def)

lemma strategies_executeRealTrade [simp]:
  "strategies (snd (executeRealTrade e st key strat sig)) = strategies st"
  by (simp add: executeRealTrade_def Let_def split: option.splits response.splits)

lemma fetched_executeRealTrade [simp]:
  "fetched (snd (executeRealTrade e st key strat sig)) = fetched st"
  by (simp add: executeRealTrade_def Let_def split: option.splits response.splits)

lemma fetched_modifyStrategy [simp]: "fetched (modifyStrategy st key f) = fetched st"
  by (simp add: modifyStrategy_def)

lemma fetched_afterQuote [simp]: "fetched (afterQuote st strat md) = fetched st"
  by (simp add: afterQuote_def addToHistory_def Let_def)

lemma registrySymbols_afterQuote [simp]:
  "registrySymbols (afterQuote st strat md) = registrySymbols st"
  by (simp add: registrySymbols_def)

lemma actOnSignal_frame:
  "fetched (snd (actOnSignal e st key strat sig)) = fetched st
   \<and> registrySymbols (snd (actOnSignal e st key strat sig)) = registrySymbols st"
proof (cases "timed_signal.price sig")
  case None
  then show ?thesis
    by (simp add: actOnSignal_def Let_def registrySymbols_modifyStrategy)
next
  case (Some p)
  let ?st3 = "modifyStrategy st key (\<lambda>s. s\<lparr>lastSignal := Some sig\<rparr>)"
  let ?pushed = "server_state.logs ?st3 @
       [SignalLog (name strat) (signal.action sig) p (confidence sig)]"
  let ?st4 = "?st3\<lparr>server_state.logs := (if length ?pushed > 100 then tl ?pushed else ?pushed)\<rparr>"
  obtain tr st5 where ex: "executeRealTrade e ?st4 key strat sig = (tr, st5)"
    by (cases "executeRealTrade e ?st4 key strat sig") auto
  have r4: "registrySymbols ?st4 = registrySymbols st"
    using registrySymbols_modifyStrategy[of "\<lambda>s. s\<lparr>lastSignal := Some sig\<rparr>" st key]
    by (simp add: registrySymbols_def)
  have "fetched st5 = fetched ?st4"
    using fetched_executeRealTrade[of e ?st4 key strat sig] by (simp only: ex snd_conv)
  then have f5: "fetched st5 = fetched st" by simp
  have s5: "strategies st5 = strategies ?st4"
    using strategies_executeRealTrade[of e ?st4 key strat sig] by (simp only: ex snd_conv)
  have r5: "registrySymbols st5 = registrySymbols st"
    using r4 s5 by (simp add: registrySymbols_def)
  have r6: "\<And>l. registrySymbols (modifyStrategy (st5\<lparr>server_state.logs := l\<rparr>) key
              (\<lambda>s. s\<lparr>performance := (performance s)
                 \<lparr>performance.totalTrades :=
                    js_add (performance.totalTrades (performance s)) (Fin 1)\<rparr>\<rparr>))
            = registrySymbols st"
    using r5 registrySymbols_modifyStrategy[of "(\<lambda>s. s\<lparr>performance := (performance s)
                 \<lparr>performance.totalTrades :=
                    js_add (performance.totalTrades (performance s)) (Fin 1)\<rparr>\<rparr>)" _ key]
    by (simp add: registrySymbols_def)
  show ?thesis
    using Some ex f5 r5 r6
    by (cases tr) (simp_all add: actOnSignal_def Let_def registrySymbols_def)
qed

lemma strategyBody_frame:
  "fetched (snd (strategyBody e st key strat md)) = fetched st
   \<and> registrySymbols (snd (strategyBody e st key strat md)) = registrySymbols st"
proof (cases "evaluateStrategy e (afterQuote st strat md) strat")
  case (Inl err)
  then show ?thesis by (simp add: strategyBody_def Let_def)
next
  case (Inr r)
  show ?thesis
  proof (cases r)
    case None
    then show ?thesis using Inr by (simp add: strategyBody_def Let_def)
  next
    case (Some sig)
    then show ?thesis
      using Inr actOnSignal_frame[of e "afterQuote st strat md" key strat sig]
      by (simp add: strategyBody_def Let_def)
  qed
qed

text \<open>The three ways a turn of the loop can end.\<close>

lemma processStrategy_fetch_failed:
  assumes "map_of (strategies st) key = Some strat"
      and "yahooQuote e (length (fetched st)) (strategy.symbol strat) = None"
  shows "processStrategy e st key
     = st\<lparr>fetched := fetched st @ [strategy.symbol strat],
          console := console st @ [FetchFailed (strategy.symbol strat)]\<rparr>"
  using assms by (simp add: processStrategy_def fetchMarketData_def Let_def)


lemma processStrategy_done:
  assumes "map_of (strategies st) key = Some strat"
      and "fetchMarketData e st (strategy.symbol strat) = (Some md, st0)"
      and "strategyBody e st0 key strat md = (None, st1)"
  shows "processStrategy e st key = st1"
  using assms by (simp add: processStrategy_def)

lemma processStrategy_frame:
  assumes "map_of (strategies st) key = Some strat"
  shows "fetched (processStrategy e st key) = fetched st @ [strategy.symbol strat]
       \<and> registrySymbols (processStrategy e st key) = registrySymbols st"
proof -
  obtain r st0 where f: "fetchMarketData e st (strategy.symbol strat) = (r, st0)"
    by (cases "fetchMarketData e st (strategy.symbol strat)") auto
  have f0: "fetched st0 = fetched st @ [strategy.symbol strat]"
    and r0: "registrySymbols st0 = registrySymbols st"
    using f by (auto simp add: fetchMarketData_def Let_def registrySymbols_def
        split: option.splits)
  show ?thesis
  proof (cases r)
    case None
    then show ?thesis using assms f f0 r0 by (simp add: processStrategy_def)
  next
    case (Some md)
    obtain err st1 where b: "strategyBody e st0 key strat md = (err, st1)"
      by (cases "strategyBody e st0 key strat md") auto
    have f1: "fetched st1 = fetched st0" and r1: "registrySymbols st1 = registrySymbols st0"
      using strategyBody_frame[of e st0 key strat md] b by simp_all
    show ?thesis
      using assms f Some b f0 r0 f1 r1
      by (cases err) (simp_all add: processStrategy_def registrySymbols_def)
  qed
qed

lemma map_of_map_snd:
  "map_of (map (\<lambda>(k, s). (k, f s)) xs) k = map_option f (map_of xs k)"
  by (induction xs) auto

lemma map_of_registrySymbols:
  "map_of (registrySymbols st) k = map_option strategy.symbol (map_of (strategies st) k)"
  by (simp add: registrySymbols_def map_of_map_snd)



section \<open>A cycle followed by hand\<close>

lemma ready_facts:
  "autoTradingEnabled readyState
   \<and> map fst (strategies readyState)
       = [''ema_crossover_1'', ''rsi_oversold_1'', ''sma_trend_1'', ''bollinger_bands_1'']
   \<and> activeStrategies readyState = [''ema_crossover_1'', ''rsi_oversold_1'', ''sma_trend_1'']
   \<and> map_of (strategies readyState) ''ema_crossover_1'' = Some emaOn
   \<and> map_of (strategies readyState) ''rsi_oversold_1'' = Some rsiOn
   \<and> map_of (strategies readyState) ''sma_trend_1'' = Some smaOn
   \<and> fetched readyState = [] \<and> server_state.placed readyState = []
   \<and> server_state.logs readyState = [] \<and> console readyState = []
   \<and> timers readyState = []"
  by (simp add: readyState_def activeStrategies_def emaOn_def rsiOn_def smaOn_def
        defaultStrategies_def initialState_def)

lemma strategy_facts:
  "strategy.symbol emaOn = ''NIFTY.NS'' \<and> strategy.symbol rsiOn = ''BANKNIFTY.NS''
   \<and> strategy.symbol smaOn = ''RELIANCE.NS'' \<and> type rsiOn = rsi_oversold
   \<and> type smaOn = sma_trend
   \<and> rsiPeriod (parameters rsiOn) = Some 14 \<and> oversoldLevel (parameters rsiOn) = Fin 30
   \<and> parameters.quantity (parameters rsiOn) = Fin 15
   \<and> name rsiOn = ''RSI Oversold BANKNIFTY''"
  by (simp add: emaOn_def rsiOn_def smaOn_def defaultStrategies_def noParameters_def)

lemma first_turn:
  "processStrategy tradingEnv readyState ''ema_crossover_1'' = afterFirstTurn
   \<and> processStrategy noPriceEnv readyState ''ema_crossover_1'' = afterFirstTurn"
  using ready_facts strategy_facts
  by (simp add: processStrategy_fetch_failed tradingEnv_def noPriceEnv_def afterFirstTurn_def)

lemma second_quote:
  "fetchMarketData tradingEnv afterFirstTurn ''BANKNIFTY.NS''
     = (Some (marketDataAt (Some (Fin 181))), afterSecondQuote)
   \<and> fetchMarketData noPriceEnv afterFirstTurn ''BANKNIFTY.NS''
     = (Some (marketDataAt None), afterSecondQuote)"
  by (simp add: fetchMarketData_def tradingEnv_def noPriceEnv_def afterFirstTurn_def
        afterSecondQuote_def marketDataAt_def quoteAt_def Let_def)

lemma fallingPrices_length: "length fallingPrices = 19"
  by (simp add: fallingPrices_def)

lemma second_history:
  "priceHistory (afterQuote afterSecondQuote rsiOn (marketDataAt p)) ''BANKNIFTY.NS''
     = Some (fallingPrices @ [p])"
  using strategy_facts
  by (simp add: afterQuote_def addToHistory_def afterSecondQuote_def afterFirstTurn_def
        readyState_def marketDataAt_def fallingPrices_length Let_def)

lemma rsi_falling:
  "calculateRSI (map to_number (fallingPrices @ [Some (Fin 181)])) (Some 14) = Fin 0
   \<and> calculateRSI (map to_number (fallingPrices @ [None])) (Some 14) = Fin 0"
  by code_simp

lemma rsi_signal:
  assumes "p = Some (Fin 181) \<or> p = None"
  shows "evaluateRSIOversold (map to_number (fallingPrices @ [p])) (parameters rsiOn)
     = \<lparr>signal.action = BUY, confidence = Fin 100\<rparr>"
  using assms strategy_facts rsi_falling
  by (auto simp add: evaluateRSIOversold_def fallingPrices_length Let_def js_le_def
        js_max_def js_sub_def period_number_def)

lemma second_signal:
  assumes "p = Some (Fin 181) \<or> p = None" and "env.now e = 0"
  shows "evaluateStrategy e (afterQuote afterSecondQuote rsiOn (marketDataAt p)) rsiOn
     = Inr (Some (rsiBuy p))"
  using strategy_facts rsi_signal[OF assms(1)] assms(2)
  by (simp add: evaluateStrategy_def second_history fallingPrices_length Let_def rsiBuy_def)

lemma placed_processStrategy_quoted:
  assumes "map_of (strategies st) key = Some strat"
      and "fetchMarketData e st (strategy.symbol strat) = (Some md, st0)"
  shows "server_state.placed (processStrategy e st key)
     = server_state.placed st @ bodyOrders e st0 strat md"
proof -
  obtain err st1 where b: "strategyBody e st0 key strat md = (err, st1)"
    by (cases "strategyBody e st0 key strat md") auto
  have p0: "server_state.placed st0 = server_state.placed st"
    using placed_fetchMarketData[of e st "strategy.symbol strat"] assms(2) by simp
  have p1: "server_state.placed st1 = server_state.placed st @ bodyOrders e st0 strat md"
    using placed_strategyBody[of e st0 key strat md] b p0 by simp
  have "server_state.placed (processStrategy e st key) = server_state.placed st1"
    using assms b by (cases err) (simp_all add: processStrategy_def)
  then show ?thesis using p1 by simp
qed

lemma second_turn_placed:
  "server_state.placed (processStrategy tradingEnv afterFirstTurn ''rsi_oversold_1'')
     = [entryOrder tradingEnv rsiOn (rsiBuy (Some (Fin 181))) (Fin 181)]"
proof -
  have look: "map_of (strategies afterFirstTurn) ''rsi_oversold_1'' = Some rsiOn"
    using ready_facts by (simp add: afterFirstTurn_def)
  have q: "fetchMarketData tradingEnv afterFirstTurn (strategy.symbol rsiOn)
     = (Some (marketDataAt (Some (Fin 181))), afterSecondQuote)"
    using second_quote strategy_facts by simp
  have ev: "evaluateStrategy tradingEnv
       (afterQuote afterSecondQuote rsiOn (marketDataAt (Some (Fin 181)))) rsiOn
     = Inr (Some (rsiBuy (Some (Fin 181))))"
    by (rule second_signal) (simp_all add: tradingEnv_def)
  have orders: "bodyOrders tradingEnv afterSecondQuote rsiOn (marketDataAt (Some (Fin 181)))
     = [entryOrder tradingEnv rsiOn (rsiBuy (Some (Fin 181))) (Fin 181)]"
    by (simp add: bodyOrders_def ev) (simp add: rsiBuy_def js_ge_def js_le_def)
  have "server_state.placed afterFirstTurn = []"
    using ready_facts by (simp add: afterFirstTurn_def)
  then show ?thesis
    using placed_processStrategy_quoted[OF look q] orders by simp
qed

lemma third_turn_placed:
  assumes "registrySymbols st = registrySymbols readyState"
      and "e = tradingEnv"
  shows "server_state.placed (processStrategy e st ''sma_trend_1'') = server_state.placed st"
proof -
  have "map_of (registrySymbols readyState) ''sma_trend_1'' = Some ''RELIANCE.NS''"
    using ready_facts strategy_facts by (simp add: map_of_registrySymbols)
  then have "map_of (registrySymbols st) ''sma_trend_1'' = Some ''RELIANCE.NS''"
    by (simp only: assms(1))
  then have "map_option strategy.symbol (map_of (strategies st) ''sma_trend_1'')
      = Some ''RELIANCE.NS''"
    by (simp only: map_of_registrySymbols)
  then obtain strat where look: "map_of (strategies st) ''sma_trend_1'' = Some strat"
      and sy: "strategy.symbol strat = ''RELIANCE.NS''"
    by (cases "map_of (strategies st) ''sma_trend_1''") simp_all
  have "yahooQuote e (length (fetched st)) (strategy.symbol strat) = None"
    by (simp add: assms(2) tradingEnv_def sy)
  then show ?thesis
    using processStrategy_fetch_failed[OF look, of e] by simp
qed

lemma cycle_example_placed:
  "server_state.placed (executeAutoTrading tradingEnv readyState)
     = [entryOrder tradingEnv rsiOn (rsiBuy (Some (Fin 181))) (Fin 181)]"
proof -
  let ?st2 = "processStrategy tradingEnv afterFirstTurn ''rsi_oversold_1''"
  have look: "map_of (strategies afterFirstTurn) ''rsi_oversold_1'' = Some rsiOn"
    using ready_facts by (simp add: afterFirstTurn_def)
  have "registrySymbols ?st2 = registrySymbols afterFirstTurn"
    using processStrategy_frame[OF look, of tradingEnv] by simp
  then have reg: "registrySymbols ?st2 = registrySymbols readyState"
    by (simp add: registrySymbols_def afterFirstTurn_def)
  have "executeAutoTrading tradingEnv readyState
      = processStrategy tradingEnv ?st2 ''sma_trend_1''"
    using ready_facts first_turn by (simp add: executeAutoTrading_def)
  then show ?thesis
    using third_turn_placed[OF reg refl] second_turn_placed by simp
qed


lemma bullish_strength:
  "strength (generateSignal liveStrategies clock ''BANKNIFTY'' (Fin 19400) bullishIndicators)
     = Fin (3 / 5)
   \<and> trading_signal.action (generateSignal liveStrategies clock ''BANKNIFTY'' (Fin 19400)
        bullishIndicators) = BUY"
proof -
  have s: "liveStrategies ''BANKNIFTY'' = Some bankniftyStrategy"
    by (simp add: liveStrategies_def)
  have en: "trading_strategy.enabled bankniftyStrategy"
    by (simp add: bankniftyStrategy_def)
  show ?thesis
    by (simp add: generateSignal_def Let_def s en bullish_votes js_min_def)
qed

lemma live_example_placed:
  "live_state.placed (engine (handleSignal liveEnv liveStrategies idleLoop ''BANKNIFTY''
       (Fin 19400) bullishIndicators))
     = [liveOrder liveEnv bankniftyStrategy
          (generateSignal liveStrategies (live_env.now liveEnv) ''BANKNIFTY'' (Fin 19400)
             bullishIndicators)]"
proof -
  have s: "liveStrategies ''BANKNIFTY'' = Some bankniftyStrategy"
    by (simp add: liveStrategies_def)
  have m: "maxPositions bankniftyStrategy = Fin 2" by (simp add: bankniftyStrategy_def)
  show ?thesis
    using bullish_strength[of "live_env.now liveEnv"]
    by (simp add: handleSignal_def executeTrade_def Let_def s m placed_placeTrade
          js_ge_def js_le_def addLog_def idleLoop_def liveEnv_def)
qed

text \<open>
  The turns of that cycle: the first and the third have no signal, their quotes fail;
  the second has the BUY signal of the RSI strategy, with confidence 100. So in that
  cycle an order is a gated entry exactly when it is a BUY of 15, the quantity of the RSI
  strategy.
\<close>

lemma turn_quote_failed:
  assumes "map_of (registrySymbols st) key = Some symb"
      and "yahooQuote e (length (fetched st)) symb = None"
  shows "turnSignal e st key = None"
proof -
  from assms(1) obtain strat where look: "map_of (strategies st) key = Some strat"
      and sy: "strategy.symbol strat = symb"
    by (auto simp add: map_of_registrySymbols)
  show ?thesis
    using look sy assms(2) by (simp add: turnSignal_def fetchMarketData_def Let_def)
qed

lemma second_turn_signal:
  "turnSignal tradingEnv afterFirstTurn ''rsi_oversold_1''
     = Some (rsiOn, rsiBuy (Some (Fin 181)))"
proof -
  have look: "map_of (strategies afterFirstTurn) ''rsi_oversold_1'' = Some rsiOn"
    using ready_facts by (simp add: afterFirstTurn_def)
  have q: "fetchMarketData tradingEnv afterFirstTurn (strategy.symbol rsiOn)
     = (Some (marketDataAt (Some (Fin 181))), afterSecondQuote)"
    using second_quote strategy_facts by simp
  have ev: "evaluateStrategy tradingEnv
       (afterQuote afterSecondQuote rsiOn (marketDataAt (Some (Fin 181)))) rsiOn
     = Inr (Some (rsiBuy (Some (Fin 181))))"
    by (rule second_signal) (simp_all add: tradingEnv_def)
  show ?thesis by (simp add: turnSignal_def look q ev)
qed

lemma example_cycle_gate:
  "gatedEntry tradingEnv readyState (activeStrategies readyState) ord
     = (transaction_type ord = BUY \<and> order.quantity ord = Fin 15)"
proof -
  let ?keys = "[''ema_crossover_1'', ''rsi_oversold_1'', ''sma_trend_1'']"
  have keys: "activeStrategies readyState = ?keys" using ready_facts by simp
  have s0: "cycleState tradingEnv readyState ?keys 0 = readyState"
    by (simp add: cycleState_def)
  have s1: "cycleState tradingEnv readyState ?keys (Suc 0) = afterFirstTurn"
    using first_turn by (simp add: cycleState_def)
  let ?st2 = "processStrategy tradingEnv afterFirstTurn ''rsi_oversold_1''"
  have s2: "cycleState tradingEnv readyState ?keys (Suc (Suc 0)) = ?st2"
    using first_turn by (simp add: cycleState_def)
  have look: "map_of (strategies afterFirstTurn) ''rsi_oversold_1'' = Some rsiOn"
    using ready_facts by (simp add: afterFirstTurn_def)
  have "registrySymbols ?st2 = registrySymbols afterFirstTurn"
    using processStrategy_frame[OF look, of tradingEnv] by simp
  then have reg: "registrySymbols ?st2 = registrySymbols readyState"
    by (simp add: registrySymbols_def afterFirstTurn_def)
  have t0: "turnSignal tradingEnv readyState ''ema_crossover_1'' = None"
  proof (rule turn_quote_failed)
    show "map_of (registrySymbols readyState) ''ema_crossover_1'' = Some ''NIFTY.NS''"
      using ready_facts strategy_facts by (simp add: map_of_registrySymbols)
    show "yahooQuote tradingEnv (length (fetched readyState)) ''NIFTY.NS'' = None"
      by (simp add: tradingEnv_def)
  qed
  have t2: "turnSignal tradingEnv ?st2 ''sma_trend_1'' = None"
  proof (rule turn_quote_failed)
    have "map_of (registrySymbols readyState) ''sma_trend_1'' = Some ''RELIANCE.NS''"
      using ready_facts strategy_facts by (simp add: map_of_registrySymbols)
    then show "map_of (registrySymbols ?st2) ''sma_trend_1'' = Some ''RELIANCE.NS''"
      by (simp only: reg)
    show "yahooQuote tradingEnv (length (fetched ?st2)) ''RELIANCE.NS'' = None"
      by (simp add: tradingEnv_def)
  qed
  have g0: "\<not> gatedTurn tradingEnv readyState ''ema_crossover_1'' ord"
    by (simp add: gatedTurn_def t0)
  have g2: "\<not> gatedTurn tradingEnv ?st2 ''sma_trend_1'' ord"
    by (simp add: gatedTurn_def t2)
  have g1: "gatedTurn tradingEnv afterFirstTurn ''rsi_oversold_1'' ord
     = (transaction_type ord = BUY \<and> order.quantity ord = Fin 15)"
    using strategy_facts
    by (simp add: gatedTurn_def second_turn_signal rsiBuy_def js_ge_def js_le_def)
  have three: "\<And>P. (\<exists>i < length ?keys. P i) = (P 0 \<or> P (Suc 0) \<or> P (Suc (Suc 0)))"
    by (auto simp add: less_Suc_eq)
  have "gatedEntry tradingEnv readyState ?keys ord
     = (gatedTurn tradingEnv readyState ''ema_crossover_1'' ord
        \<or> gatedTurn tradingEnv afterFirstTurn ''rsi_oversold_1'' ord
        \<or> gatedTurn tradingEnv ?st2 ''sma_trend_1'' ord)"
    unfolding gatedEntry_def three s0 s1 s2 by simp
  then show ?thesis using g0 g1 g2 keys by simp
qed

theorem entry_orders_gated_witness:
  "server_state.placed (executeAutoTrading tradingEnv readyState)
     = server_state.placed readyState
         @ [entryOrder tradingEnv rsiOn (rsiBuy (Some (Fin 181))) (Fin 181)]
   \<and> gatedEntry tradingEnv readyState (activeStrategies readyState)
        (entryOrder tradingEnv rsiOn (rsiBuy (Some (Fin 181))) (Fin 181))
   \<and> turnSignal tradingEnv
        (cycleState tradingEnv readyState (activeStrategies readyState) 1)
        (activeStrategies readyState ! 1)
       = Some (rsiOn, rsiBuy (Some (Fin 181)))
   \<and> signal.action (rsiBuy (Some (Fin 181))) = BUY
   \<and> confidence (rsiBuy (Some (Fin 181))) = Fin 100
   \<and> parameters.quantity (parameters rsiOn) = Fin 15
   \<and> transaction_type (entryOrder tradingEnv rsiOn (rsiBuy (Some (Fin 181))) (Fin 181)) = BUY
   \<and> order.quantity (entryOrder tradingEnv rsiOn (rsiBuy (Some (Fin 181))) (Fin 181)) = Fin 15
   \<and> \<not> gatedEntry tradingEnv readyState (activeStrategies readyState)
        ((entryOrder tradingEnv rsiOn (rsiBuy (Some (Fin 181))) (Fin 181))
           \<lparr>order.quantity := Fin 999999\<rparr>)
   \<and> \<not> gatedEntry tradingEnv readyState (activeStrategies readyState)
        ((entryOrder tradingEnv rsiOn (rsiBuy (Some (Fin 181))) (Fin 181))
           \<lparr>transaction_type := SELL\<rparr>)
   \<and> live_state.placed (engine (handleSignal liveEnv liveStrategies idleLoop ''BANKNIFTY''
         (Fin 19400) bullishIndicators))
     = live_state.placed (engine idleLoop)
         @ [liveOrder liveEnv bankniftyStrategy
              (generateSignal liveStrategies (live_env.now liveEnv) ''BANKNIFTY'' (Fin 19400)
                 bullishIndicators)]
   \<and> gatedLiveEntry liveStrategies
        (generateSignal liveStrategies (live_env.now liveEnv) ''BANKNIFTY'' (Fin 19400)
           bullishIndicators)
        (liveOrder liveEnv bankniftyStrategy
           (generateSignal liveStrategies (live_env.now liveEnv) ''BANKNIFTY'' (Fin 19400)
              bullishIndicators))"
proof -
  let ?sig = "generateSignal liveStrategies (live_env.now liveEnv) ''BANKNIFTY'' (Fin 19400)
                 bullishIndicators"
  let ?ord = "entryOrder tradingEnv rsiOn (rsiBuy (Some (Fin 181))) (Fin 181)"
  let ?lord = "liveOrder liveEnv bankniftyStrategy ?sig"
  from entry_orders_gated [OF refl, of tradingEnv readyState liveEnv liveStrategies
      idleLoop "''BANKNIFTY''" "Fin 19400" bullishIndicators]
  obtain new lnew where
      n: "server_state.placed (executeAutoTrading tradingEnv readyState)
            = server_state.placed readyState @ new"
      and g: "\<forall>ord \<in> set new.
                gatedEntry tradingEnv readyState (activeStrategies readyState) ord"
      and ln: "live_state.placed (engine (handleSignal liveEnv liveStrategies idleLoop
                 ''BANKNIFTY'' (Fin 19400) bullishIndicators))
            = live_state.placed (engine idleLoop) @ lnew"
      and lg: "\<forall>ord \<in> set lnew. gatedLiveEntry liveStrategies ?sig ord"
    by blast
  have p0: "server_state.placed readyState = []" using ready_facts by simp
  have l0: "live_state.placed (engine idleLoop) = []" by (simp add: idleLoop_def)
  have new: "new = [?ord]" using n cycle_example_placed p0 by simp
  have lnew: "lnew = [?lord]" using ln live_example_placed l0 by simp
  have a: "gatedEntry tradingEnv readyState (activeStrategies readyState) ?ord"
    using g new by simp
  have b: "gatedLiveEntry liveStrategies ?sig ?lord"
    using lg lnew by simp
  have c: "transaction_type ?ord = BUY \<and> order.quantity ?ord = Fin 15
      \<and> parameters.quantity (parameters rsiOn) = Fin 15
      \<and> signal.action (rsiBuy (Some (Fin 181))) = BUY
      \<and> confidence (rsiBuy (Some (Fin 181))) = Fin 100"
    using strategy_facts by (simp add: entryOrder_def rsiBuy_def)
  have t: "turnSignal tradingEnv
        (cycleState tradingEnv readyState (activeStrategies readyState) 1)
        (activeStrategies readyState ! 1)
       = Some (rsiOn, rsiBuy (Some (Fin 181)))"
    using ready_facts first_turn second_turn_signal by (simp add: cycleState_def)
  have d: "\<not> gatedEntry tradingEnv readyState (activeStrategies readyState)
        (?ord\<lparr>order.quantity := Fin 999999\<rparr>)"
    by (simp add: example_cycle_gate)
  have e: "\<not> gatedEntry tradingEnv readyState (activeStrategies readyState)
        (?ord\<lparr>transaction_type := SELL\<rparr>)"
    by (simp add: example_cycle_gate)
  show ?thesis
    using a b c d e t cycle_example_placed live_example_placed p0 l0 by simp
qed



section \<open>Properties of the indicators on short input\<close>

lemma rsi_no_changes:
  assumes "length prices < 2"
  shows "calculateRSI prices per = NaN"
proof -
  have "changes prices = []"
    using assms by (cases prices) (simp_all add: changes_def)
  then show ?thesis
    by (simp add: calculateRSI_def js_slice_def js_sum_def js_sub_def Let_def)
qed

text \<open>
  C5 (as amended). The defaults for short input are given by the guard of
  \<open>calculateIndicators\<close>, not by every indicator function. With fewer than 50
  prices \<open>calculateIndicators\<close> returns RSI 50, both stochastics 50, MACD and its
  signal 0, ATR 0, volume ratio 1, and the current price for the four moving averages
  and the two Bollinger bands: the last price, or 0 when there is no price or the last
  price is 0 or NaN. The component's \<open>calculateRSI\<close> returns 50 on fewer than 2
  prices. The server's \<open>calculateRSI\<close> has no default: on fewer than 2 prices it
  returns NaN, whatever the period.
\<close>

theorem indicators_short_input_defaults:
  assumes cur: "cur = js_or (js_nth prices (int (length prices) - 1)) (Fin 0)"
  shows "(length prices < 50 \<longrightarrow>
            calculateIndicators symb prices volumes
              = \<lparr>rsi = Fin 50, sma20 = cur, sma50 = cur, ema9 = cur, ema21 = cur,
                 macd = Fin 0, macdSignal = Fin 0, bollingerUpper = cur,
                 bollingerLower = cur, stochasticK = Fin 50, stochasticD = Fin 50,
                 atr = Fin 0, volumeRatio = Fin 1\<rparr>)
      \<and> (prices \<noteq> [] \<and> truthy (last prices) \<longrightarrow> cur = last prices)
      \<and> (prices = [] \<or> \<not> truthy (last prices) \<longrightarrow> cur = Fin 0)
      \<and> (length prices < 2 \<longrightarrow> live_calculateRSI prices = Fin 50)
      \<and> (length prices < 2 \<longrightarrow> calculateRSI prices per = NaN)"
proof (intro conjI impI)
  assume "length prices < 50"
  then show "calculateIndicators symb prices volumes
              = \<lparr>rsi = Fin 50, sma20 = cur, sma50 = cur, ema9 = cur, ema21 = cur,
                 macd = Fin 0, macdSignal = Fin 0, bollingerUpper = cur,
                 bollingerLower = cur, stochasticK = Fin 50, stochasticD = Fin 50,
                 atr = Fin 0, volumeRatio = Fin 1\<rparr>"
    by (simp add: calculateIndicators_def Let_def cur)
next
  assume a: "prices \<noteq> [] \<and> truthy (last prices)"
  then have "js_nth prices (int (length prices) - 1) = last prices"
    by (simp add: js_nth_def last_conv_nth nat_diff_distrib' of_nat_diff)
  then show "cur = last prices" using a by (simp add: cur js_or_def)
next
  assume a: "prices = [] \<or> \<not> truthy (last prices)"
  show "cur = Fin 0"
  proof (cases "prices = []")
    case True
    then show ?thesis by (simp add: cur js_nth_def js_or_def truthy_def)
  next
    case False
    then have "js_nth prices (int (length prices) - 1) = last prices"
      by (simp add: js_nth_def last_conv_nth nat_diff_distrib' of_nat_diff)
    then show ?thesis using a False by (simp add: cur js_or_def)
  qed
next
  assume "length prices < 2"
  then show "live_calculateRSI prices = Fin 50" by (simp add: live_calculateRSI_def)
next
  assume "length prices < 2"
  then show "calculateRSI prices per = NaN" by (rule rsi_no_changes)
qed

theorem indicators_short_input_defaults_witness:
  "length [Fin 100] < 50 \<and> [Fin 100] \<noteq> [] \<and> truthy (last [Fin 100])
   \<and> length [Fin 100] < 2
   \<and> calculateIndicators ''NIFTY'' [Fin 100] [Fin 700000]
       = \<lparr>rsi = Fin 50, sma20 = Fin 100, sma50 = Fin 100, ema9 = Fin 100, ema21 = Fin 100,
          macd = Fin 0, macdSignal = Fin 0, bollingerUpper = Fin 100,
          bollingerLower = Fin 100, stochasticK = Fin 50, stochasticD = Fin 50,
          atr = Fin 0, volumeRatio = Fin 1\<rparr>
   \<and> live_calculateRSI [Fin 100] = Fin 50
   \<and> calculateRSI [Fin 100] (Some 14) = NaN
   \<and> length ([] :: jsnum list) < 50
   \<and> calculateIndicators ''NIFTY'' [] []
       = \<lparr>rsi = Fin 50, sma20 = Fin 0, sma50 = Fin 0, ema9 = Fin 0, ema21 = Fin 0,
          macd = Fin 0, macdSignal = Fin 0, bollingerUpper = Fin 0,
          bollingerLower = Fin 0, stochasticK = Fin 50, stochasticD = Fin 50,
          atr = Fin 0, volumeRatio = Fin 1\<rparr>"
  using indicators_short_input_defaults [OF refl, of "[Fin 100]" "''NIFTY''" "[Fin 700000]"
      "Some 14"]
    indicators_short_input_defaults [OF refl, of "[]" "''NIFTY''" "[]" "Some 14"]
  by (simp add: truthy_def js_nth_def js_or_def)

text \<open>
  The claim as first stated fails on the server's \<open>calculateRSI\<close>, which has no
  default: with period 14, one price gives NaN and the two prices 1, 2 give 100.
\<close>

theorem rsi_short_input_counterexample:
  "length [Fin 1] < 14 \<and> calculateRSI [Fin 1] (Some 14) = NaN
   \<and> calculateRSI [Fin 1] (Some 14) \<noteq> Fin 50
   \<and> length [Fin 1, Fin 2] < 14 \<and> calculateRSI [Fin 1, Fin 2] (Some 14) = Fin 100
   \<and> calculateRSI [Fin 1, Fin 2] (Some 14) \<noteq> Fin 50"
  by (simp add: calculateRSI_def changes_def js_slice_def slice_index_def js_sum_def
        js_sub_def js_gt_def Let_def)

section \<open>The cap of the logs\<close>

text \<open>
  C7 fails on the code: only the signal line of the cycle is followed by the trim. On
  logs of 100 lines, the strategy update and the auto-trading switch each leave 101, and
  so does the loop body of the cycle when it acts on a signal and the order is placed:
  the signal line is trimmed back to 100 and the line of the executed trade makes 101.
\<close>

theorem logs_exceed_cap:
  "length (server_state.logs fullLogsState) = 100
   \<and> length (server_state.logs
         (snd (putStrategy fullLogsState ''ema_crossover_1'' noUpdates))) = 101
   \<and> length (server_state.logs (postAutoTrading fullLogsState False)) = 101
   \<and> length (server_state.logs
         (snd (actOnSignal tradingEnv fullLogsState ''rsi_oversold_1'' rsiOn
                 (rsiBuy (Some (Fin 181)))))) = 101"
proof -
  have l: "length (server_state.logs fullLogsState) = 100"
    by (simp add: fullLogsState_def)
  have put: "length (server_state.logs
         (snd (putStrategy fullLogsState ''ema_crossover_1'' noUpdates))) = 101"
    by (simp add: fullLogsState_def putStrategy_def modifyStrategy_def initialState_def
          defaultStrategies_def Let_def)
  have post: "length (server_state.logs (postAutoTrading fullLogsState False)) = 101"
    by (simp add: fullLogsState_def postAutoTrading_def)
  have act: "length (server_state.logs
         (snd (actOnSignal tradingEnv fullLogsState ''rsi_oversold_1'' rsiOn
                 (rsiBuy (Some (Fin 181)))))) = 101"
    using l
    by (simp add: actOnSignal_def executeRealTrade_def modifyStrategy_def rsiBuy_def
          tradingEnv_def Let_def)
  show ?thesis using l put post act by simp
qed

end
